theory Spec2Isabelle
  imports Main "HOL-Library.Sublist"
begin

section \<open>Python values and exceptions\<close>

text \<open>
  The two scripts \<^verbatim>\<open>agent.py\<close> and \<^verbatim>\<open>gg.py\<close> pass around
  dynamically typed values: whatever \<^verbatim>\<open>json.loads\<close> and the database tools return.
  \<open>pyval\<close> is that universe: \<^verbatim>\<open>None\<close>, booleans, integers, strings, lists and
  dictionaries with string keys. A dictionary is the list of its items in insertion order;
  every dictionary the code builds has distinct keys (\<open>dict_set\<close> keeps them so).
  Floating-point numbers are left out: no branch of the code looks at one.
\<close>

datatype pyval =
    PNone
  | PBool bool
  | PInt int
  | PStr string
  | PList "pyval list"
  | PDict "(string \<times> pyval) list"

text \<open>The exceptions the code can meet. \<open>CollabError\<close> is any failure raised inside an
  external call (the completion call, a database tool, the agent runtime).\<close>

datatype exn =
    KeyError string
  | TypeError
  | AttributeError
  | ValueError string
  | JSONDecodeError
  | CollabError string

text \<open>Truth value testing, as \<^verbatim>\<open>if x:\<close> does it.\<close>

fun truthy :: "pyval \<Rightarrow> bool" where
  "truthy PNone = False"
| "truthy (PBool b) = b"
| "truthy (PInt i) = (i \<noteq> 0)"
| "truthy (PStr s) = (s \<noteq> [])"
| "truthy (PList xs) = (xs \<noteq> [])"
| "truthy (PDict d) = (d \<noteq> [])"

text \<open>\<^verbatim>\<open>d[k] = v\<close> on a dictionary: an existing key keeps its position, a new key goes last.\<close>

fun dict_set :: "(string \<times> pyval) list \<Rightarrow> string \<Rightarrow> pyval \<Rightarrow> (string \<times> pyval) list" where
  "dict_set [] k v = [(k, v)]"
| "dict_set ((k', v') # d) k v = (if k' = k then (k, v) # d else (k', v') # dict_set d k v)"

text \<open>\<^verbatim>\<open>x[k]\<close> with a string key: only a dictionary can be subscripted by a string.\<close>

fun py_getitem :: "pyval \<Rightarrow> string \<Rightarrow> exn + pyval" where
  "py_getitem (PDict d) k = (case map_of d k of None \<Rightarrow> Inl (KeyError k) | Some v \<Rightarrow> Inr v)"
| "py_getitem x k = Inl TypeError"

text \<open>\<^verbatim>\<open>x.get(k, default)\<close>: only a dictionary has the method.\<close>

fun py_get :: "pyval \<Rightarrow> string \<Rightarrow> pyval \<Rightarrow> exn + pyval" where
  "py_get (PDict d) k dflt = (case map_of d k of None \<Rightarrow> Inr dflt | Some v \<Rightarrow> Inr v)"
| "py_get x k dflt = Inl AttributeError"

text \<open>\<^verbatim>\<open>for x in xs\<close>: a list yields its elements, a dictionary its keys, a string its
  characters; nothing else is iterable.\<close>

fun py_iter :: "pyval \<Rightarrow> exn + pyval list" where
  "py_iter (PList xs) = Inr xs"
| "py_iter (PDict d) = Inr (map (\<lambda>(k, v). PStr k) d)"
| "py_iter (PStr s) = Inr (map (\<lambda>c. PStr [c]) s)"
| "py_iter x = Inl TypeError"

text \<open>\<^verbatim>\<open>k in x\<close> for a string \<open>k\<close>: membership in a list, a key of a dictionary, a
  substring of a string.\<close>

fun py_contains :: "pyval \<Rightarrow> string \<Rightarrow> exn + bool" where
  "py_contains (PList xs) k = Inr (PStr k \<in> set xs)"
| "py_contains (PDict d) k = Inr (k \<in> set (map fst d))"
| "py_contains (PStr s) k = Inr (sublist k s)"
| "py_contains x k = Inl TypeError"

text \<open>\<^verbatim>\<open>isinstance(result, str) and sentinel in result\<close>.\<close>

fun is_str_containing :: "string \<Rightarrow> pyval \<Rightarrow> bool" where
  "is_str_containing sentinel (PStr s) = sublist sentinel s"
| "is_str_containing sentinel x = False"

section \<open>The case-insensitive rewrite\<close>

text \<open>\<^verbatim>\<open>k in schema.get("string_fields", [])\<close>.\<close>

definition in_string_fields :: "string \<Rightarrow> pyval \<Rightarrow> exn + bool" where
  "in_string_fields k schema =
     (case py_get schema ''string_fields'' (PList []) of
        Inl e \<Rightarrow> Inl e
      | Inr fields \<Rightarrow> py_contains fields k)"

text \<open>\<^verbatim>\<open>{"$regex": v, "$options": "i"}\<close>.\<close>

definition regex_condition :: "string \<Rightarrow> pyval" where
  "regex_condition v = PDict [(''$regex'', PStr v), (''$options'', PStr ''i'')]"

text \<open>
  \<^verbatim>\<open>make_case_insensitive(obj, schema)\<close>, the same text in both files.
  \<open>mci_items\<close> is its \<^verbatim>\<open>for k, v in obj.items()\<close> loop with the dictionary
  \<^verbatim>\<open>result\<close> built so far. The membership test is only evaluated for a string value
  (\<^verbatim>\<open>and\<close> short-circuits), and it is where the function can raise.
\<close>

fun make_case_insensitive :: "pyval \<Rightarrow> pyval \<Rightarrow> exn + pyval"
  and mci_items :: "(string \<times> pyval) list \<Rightarrow> pyval \<Rightarrow> (string \<times> pyval) list
                      \<Rightarrow> exn + (string \<times> pyval) list" where
  "make_case_insensitive (PDict d) schema =
     (case mci_items d schema [] of Inl e \<Rightarrow> Inl e | Inr result \<Rightarrow> Inr (PDict result))"
| "make_case_insensitive PNone schema = Inr PNone"
| "make_case_insensitive (PBool b) schema = Inr (PBool b)"
| "make_case_insensitive (PInt i) schema = Inr (PInt i)"
| "make_case_insensitive (PStr s) schema = Inr (PStr s)"
| "make_case_insensitive (PList xs) schema = Inr (PList xs)"
| "mci_items [] schema result = Inr result"
| "mci_items ((k, PStr v) # rest) schema result =
     (case in_string_fields k schema of
        Inl e \<Rightarrow> Inl e
      | Inr True \<Rightarrow> mci_items rest schema (dict_set result k (regex_condition v))
      | Inr False \<Rightarrow> mci_items rest schema (dict_set result k (PStr v)))"
| "mci_items ((k, PDict d) # rest) schema result =
     (case make_case_insensitive (PDict d) schema of
        Inl e \<Rightarrow> Inl e
      | Inr v' \<Rightarrow> mci_items rest schema (dict_set result k v'))"
| "mci_items ((k, PNone) # rest) schema result = mci_items rest schema (dict_set result k PNone)"
| "mci_items ((k, PBool b) # rest) schema result = mci_items rest schema (dict_set result k (PBool b))"
| "mci_items ((k, PInt i) # rest) schema result = mci_items rest schema (dict_set result k (PInt i))"
| "mci_items ((k, PList xs) # rest) schema result = mci_items rest schema (dict_set result k (PList xs))"

section \<open>External collaborators\<close>

text \<open>
  Which of the two scripts a definition follows, where they differ.
\<close>

datatype srcfile = AgentPy | GgPy

text \<open>
  The inventory \<^verbatim>\<open>db_coll_map\<close>: a dictionary keyed by whatever the database tool
  returned as a name.
\<close>

type_synonym inventory = "(pyval \<times> pyval) list"

text \<open>
  A prompt is an f-string around the values it interpolates; the completion call is opaque,
  so a prompt is kept as its template together with those values. The wording of the plan,
  ranking and filter prompts differs between the two scripts.
\<close>

datatype prompt =
    PlanPrompt srcfile string
  | RankPrompt srcfile string inventory
  | MatchPrompt srcfile string pyval
  | AggPrompt string pyval

text \<open>
  The collaborators the scripts call and do not implement. Each call that reaches the
  outside world takes the state of that world and returns the new one, with either the
  exception it raised or its result:
  \<^item> \<open>llm_invoke\<close>: \<^verbatim>\<open>llm.invoke(prompt).content\<close>;
  \<^item> \<open>tool_invoke\<close>: \<^verbatim>\<open>client.get_tool(name).ainvoke(args)\<close>;
  \<^item> \<open>collection_schema\<close>: \<^verbatim>\<open>client.collection_schema(db, coll)\<close>;
  \<^item> \<open>aggregate\<close>: \<^verbatim>\<open>client.aggregate(db, coll, pipeline)\<close>;
  \<^item> \<open>agent_run\<close>: \<^verbatim>\<open>agent.run(user_input)\<close>;
  \<^item> \<open>aggregation_agent\<close>: in \<^verbatim>\<open>gg.py\<close>, the agent built around
    \<^verbatim>\<open>get_aggregation_tool(client)\<close> (module \<^verbatim>\<open>tools.aggregation_tool\<close>, which
    is not among the sources) and its \<^verbatim>\<open>ainvoke\<close>;
  \<^item> \<open>json_loads\<close>, \<open>json_dumps\<close>: the standard library's parser and printer.
\<close>

record 'w env =
  llm_invoke :: "prompt \<Rightarrow> 'w \<Rightarrow> (exn + string) \<times> 'w"
  tool_invoke :: "string \<Rightarrow> pyval \<Rightarrow> 'w \<Rightarrow> (exn + pyval) \<times> 'w"
  collection_schema :: "pyval \<Rightarrow> pyval \<Rightarrow> 'w \<Rightarrow> (exn + pyval) \<times> 'w"
  aggregate :: "pyval \<Rightarrow> pyval \<Rightarrow> pyval \<Rightarrow> 'w \<Rightarrow> (exn + pyval) \<times> 'w"
  agent_run :: "string \<Rightarrow> 'w \<Rightarrow> (exn + pyval) \<times> 'w"
  aggregation_agent :: "pyval \<Rightarrow> 'w \<Rightarrow> (exn + pyval) \<times> 'w"
  json_loads :: "string \<Rightarrow> exn + pyval"
  json_dumps :: "pyval \<Rightarrow> string"

text \<open>What the scripts print, one constructor per \<^verbatim>\<open>print\<close> statement.\<close>

datatype event =
    SuggestionFailed exn
  | SchemaLoadFailed pyval pyval exn
  | TryingMatch pyval pyval
  | MatchFailed pyval pyval exn
  | TryingAggregation pyval pyval
  | AggregationFailed exn
  | AggregationFailedOn pyval pyval exn
  | MatchResult pyval pyval pyval
  | AggregationResult pyval pyval pyval
  | AllRetriesFailed
  | Planning
  | Steps string
  | Executing
  | AgentResult pyval
  | AgentFallback exn

text \<open>
  \<^verbatim>\<open>s.strip()\<close>: leading and trailing whitespace removed. A character stands for a
  code point below 256; \<open>is_space\<close> holds of those that \<^verbatim>\<open>str.isspace\<close> accepts: tab to
  carriage return, the four separators, the space, next line (133) and the no-break space
  (160).
\<close>

definition is_space :: "char \<Rightarrow> bool" where
  "is_space c = (of_char c \<in> {9, 10, 11, 12, 13, 28, 29, 30, 31, 32, 133, 160 :: nat})"

definition py_strip :: "string \<Rightarrow> string" where
  "py_strip s = rev (dropWhile is_space (rev (dropWhile is_space s)))"

section \<open>Candidate ranking\<close>

text \<open>\<^verbatim>\<open>[x["name"] for x in xs]\<close>: the first failing subscript ends the comprehension.\<close>

fun names_of :: "pyval list \<Rightarrow> exn + pyval list" where
  "names_of [] = Inr []"
| "names_of (x # xs) =
     (case py_getitem x ''name'' of
        Inl e \<Rightarrow> Inl e
      | Inr n \<Rightarrow> (case names_of xs of Inl e \<Rightarrow> Inl e | Inr ns \<Rightarrow> Inr (n # ns)))"

text \<open>\<^verbatim>\<open>[x["name"] for x in reply[key]]\<close>.\<close>

definition listed_names :: "pyval \<Rightarrow> string \<Rightarrow> exn + pyval list" where
  "listed_names reply key =
     (case py_getitem reply key of
        Inl e \<Rightarrow> Inl e
      | Inr xs \<Rightarrow> (case py_iter xs of Inl e \<Rightarrow> Inl e | Inr ys \<Rightarrow> names_of ys))"

text \<open>
  Storing under a key of any type: lists and dictionaries are unhashable, and
  \<^verbatim>\<open>True\<close>/\<^verbatim>\<open>1\<close> and \<^verbatim>\<open>False\<close>/\<^verbatim>\<open>0\<close> are the same key.
\<close>

fun py_hashable :: "pyval \<Rightarrow> bool" where
  "py_hashable (PList xs) = False"
| "py_hashable (PDict d) = False"
| "py_hashable x = True"

fun py_key_eq :: "pyval \<Rightarrow> pyval \<Rightarrow> bool" where
  "py_key_eq (PBool b) (PInt i) = (i = (if b then 1 else 0))"
| "py_key_eq (PInt i) (PBool b) = (i = (if b then 1 else 0))"
| "py_key_eq x y = (x = y)"

fun inventory_put :: "inventory \<Rightarrow> pyval \<Rightarrow> pyval \<Rightarrow> inventory" where
  "inventory_put [] k v = [(k, v)]"
| "inventory_put ((k', v') # m) k v =
     (if py_key_eq k' k then (k', v) # m else (k', v') # inventory_put m k v)"

definition inventory_set :: "inventory \<Rightarrow> pyval \<Rightarrow> pyval \<Rightarrow> exn + inventory" where
  "inventory_set m k v = (if py_hashable k then Inr (inventory_put m k v) else Inl TypeError)"

text \<open>
  One round of the inventory loop, the statements both scripts share:
  \<^verbatim>\<open>colls = await client.get_tool("list-collections").ainvoke({"database": db})\<close>,
  \<^verbatim>\<open>db_coll_map[db] = [c["name"] for c in colls["collections"]]\<close>.
\<close>

definition list_collections_into :: "'w env \<Rightarrow> pyval \<Rightarrow> inventory \<Rightarrow> 'w \<Rightarrow> (exn + inventory) \<times> 'w" where
  "list_collections_into env db db_coll_map w =
     (case tool_invoke env ''list-collections'' (PDict [(''database'', db)]) w of
        (Inl e, w1) \<Rightarrow> (Inl e, w1)
      | (Inr colls, w1) \<Rightarrow>
          (case listed_names colls ''collections'' of
             Inl e \<Rightarrow> (Inl e, w1)
           | Inr names \<Rightarrow> (inventory_set db_coll_map db (PList names), w1)))"

text \<open>
  \<^verbatim>\<open>for db in db_names\<close>. In \<^verbatim>\<open>gg.py\<close> the round is inside
  \<^verbatim>\<open>try: ... except Exception: continue\<close>; in \<^verbatim>\<open>agent.py\<close> it is not, and an
  exception leaves the loop.
\<close>

fun inventory_loop :: "srcfile \<Rightarrow> 'w env \<Rightarrow> pyval list \<Rightarrow> inventory \<Rightarrow> 'w \<Rightarrow> (exn + inventory) \<times> 'w" where
  "inventory_loop sf env [] db_coll_map w = (Inr db_coll_map, w)"
| "inventory_loop sf env (db # rest) db_coll_map w =
     (case list_collections_into env db db_coll_map w of
        (Inl e, w1) \<Rightarrow>
          (case sf of
             AgentPy \<Rightarrow> (Inl e, w1)
           | GgPy \<Rightarrow> inventory_loop sf env rest db_coll_map w1)
      | (Inr m, w1) \<Rightarrow> inventory_loop sf env rest m w1)"

text \<open>The inventory retrieval: the first half of the \<^verbatim>\<open>try\<close> block of
  \<^verbatim>\<open>suggest_db_collection_candidates\<close>.\<close>

definition retrieve_inventory :: "srcfile \<Rightarrow> 'w env \<Rightarrow> 'w \<Rightarrow> (exn + inventory) \<times> 'w" where
  "retrieve_inventory sf env w =
     (case tool_invoke env ''list-databases'' (PDict []) w of
        (Inl e, w1) \<Rightarrow> (Inl e, w1)
      | (Inr dbs, w1) \<Rightarrow>
          (case listed_names dbs ''databases'' of
             Inl e \<Rightarrow> (Inl e, w1)
           | Inr db_names \<Rightarrow> inventory_loop sf env db_names [] w1))"

text \<open>The fallback literal \<^verbatim>\<open>[{"database": "car_database", "collection": "cars"}]\<close>.\<close>

definition default_candidates :: pyval where
  "default_candidates =
     PList [PDict [(''database'', PStr ''car_database''), (''collection'', PStr ''cars'')]]"

text \<open>The whole \<^verbatim>\<open>try\<close> block of \<^verbatim>\<open>suggest_db_collection_candidates\<close>.\<close>

definition suggest_body :: "srcfile \<Rightarrow> 'w env \<Rightarrow> string \<Rightarrow> 'w \<Rightarrow> (exn + pyval) \<times> 'w" where
  "suggest_body sf env user_input w =
     (case retrieve_inventory sf env w of
        (Inl e, w1) \<Rightarrow> (Inl e, w1)
      | (Inr db_coll_map, w1) \<Rightarrow>
          (case llm_invoke env (RankPrompt sf user_input db_coll_map) w1 of
             (Inl e, w2) \<Rightarrow> (Inl e, w2)
           | (Inr content, w2) \<Rightarrow> (json_loads env (py_strip content), w2)))"

text \<open>\<^verbatim>\<open>suggest_db_collection_candidates(llm, client, user_input)\<close>: the value returned,
  what was printed, and the world afterwards.\<close>

definition suggest_db_collection_candidates ::
    "srcfile \<Rightarrow> 'w env \<Rightarrow> string \<Rightarrow> 'w \<Rightarrow> pyval \<times> event list \<times> 'w" where
  "suggest_db_collection_candidates sf env user_input w =
     (case suggest_body sf env user_input w of
        (Inl e, w1) \<Rightarrow> (default_candidates, [SuggestionFailed e], w1)
      | (Inr candidates, w1) \<Rightarrow> (candidates, [], w1))"

section \<open>Schema introspection\<close>

text \<open>
  \<^verbatim>\<open>[f["name"] for f in fields if f.get("bsonType") == "string"]\<close>: for each field the
  test comes first, then the subscript.
\<close>

fun string_field_names :: "pyval list \<Rightarrow> exn + pyval list" where
  "string_field_names [] = Inr []"
| "string_field_names (f # fs) =
     (case py_get f ''bsonType'' PNone of
        Inl e \<Rightarrow> Inl e
      | Inr t \<Rightarrow>
          if t = PStr ''string'' then
            (case py_getitem f ''name'' of
               Inl e \<Rightarrow> Inl e
             | Inr n \<Rightarrow>
                 (case string_field_names fs of Inl e \<Rightarrow> Inl e | Inr ns \<Rightarrow> Inr (n # ns)))
          else string_field_names fs)"

text \<open>\<^verbatim>\<open>{**schema, "string_fields": string_fields}\<close>.\<close>

fun with_string_fields :: "pyval \<Rightarrow> pyval list \<Rightarrow> exn + pyval" where
  "with_string_fields (PDict d) names = Inr (PDict (dict_set d ''string_fields'' (PList names)))"
| "with_string_fields x names = Inl TypeError"

text \<open>The two statements of \<^verbatim>\<open>get_collection_schema\<close> after the collaborator's reply.\<close>

definition classify_schema :: "pyval \<Rightarrow> exn + pyval" where
  "classify_schema schema =
     (case py_get schema ''fields'' (PList []) of
        Inl e \<Rightarrow> Inl e
      | Inr field_list \<Rightarrow>
          (case py_iter field_list of
             Inl e \<Rightarrow> Inl e
           | Inr fs \<Rightarrow>
               (case string_field_names fs of
                  Inl e \<Rightarrow> Inl e
                | Inr names \<Rightarrow> with_string_fields schema names)))"

text \<open>\<^verbatim>\<open>get_collection_schema(client, db, coll)\<close>, the same text in both files. It has no
  \<^verbatim>\<open>try\<close>: an exception goes to the caller.\<close>

definition get_collection_schema :: "'w env \<Rightarrow> pyval \<Rightarrow> pyval \<Rightarrow> 'w \<Rightarrow> (exn + pyval) \<times> 'w" where
  "get_collection_schema env db coll w =
     (case collection_schema env db coll w of
        (Inl e, w1) \<Rightarrow> (Inl e, w1)
      | (Inr schema, w1) \<Rightarrow> (classify_schema schema, w1))"

section \<open>The two strategies\<close>

text \<open>The text whose presence in a string result means that nothing was found:
  \<^verbatim>\<open>"Found 0"\<close> in \<^verbatim>\<open>agent.py\<close>; \<^verbatim>\<open>gg.py\<close> has a backquote after the F.\<close>

fun found_none_text :: "srcfile \<Rightarrow> string" where
  "found_none_text AgentPy = ''Found 0''"
| "found_none_text GgPy = ''F'' @ [CHR 0x60] @ ''ound 0''"

text \<open>The \<^verbatim>\<open>try\<close> block of \<^verbatim>\<open>try_query_with_match\<close> after its first
  \<^verbatim>\<open>print\<close>: the exception raised in it, or the value it returns.\<close>

definition match_body ::
    "srcfile \<Rightarrow> 'w env \<Rightarrow> pyval \<Rightarrow> pyval \<Rightarrow> string \<Rightarrow> pyval \<Rightarrow> 'w \<Rightarrow> (exn + pyval) \<times> 'w" where
  "match_body sf env db coll user_input schema w =
     (case llm_invoke env (MatchPrompt sf user_input schema) w of
        (Inl e, w1) \<Rightarrow> (Inl e, w1)
      | (Inr content, w1) \<Rightarrow>
          (case json_loads env (py_strip content) of
             Inl e \<Rightarrow> (Inl e, w1)
           | Inr raw \<Rightarrow>
               (case make_case_insensitive raw schema of
                  Inl e \<Rightarrow> (Inl e, w1)
                | Inr final \<Rightarrow>
                    (case aggregate env db coll (PList [PDict [(''$match'', final)]]) w1 of
                       (Inl e, w2) \<Rightarrow> (Inl e, w2)
                     | (Inr result, w2) \<Rightarrow>
                         if is_str_containing (found_none_text sf) result
                         then (Inl (ValueError ''No data found''), w2)
                         else (Inr result, w2)))))"

text \<open>\<^verbatim>\<open>try_query_with_match(llm, client, db, coll, user_input, schema)\<close>: every
  exception of the block is printed and turned into \<^verbatim>\<open>None\<close>.\<close>

definition try_query_with_match ::
    "srcfile \<Rightarrow> 'w env \<Rightarrow> pyval \<Rightarrow> pyval \<Rightarrow> string \<Rightarrow> pyval \<Rightarrow> 'w \<Rightarrow> pyval \<times> event list \<times> 'w" where
  "try_query_with_match sf env db coll user_input schema w =
     (case match_body sf env db coll user_input schema w of
        (Inl e, w1) \<Rightarrow> (PNone, [TryingMatch db coll, MatchFailed db coll e], w1)
      | (Inr result, w1) \<Rightarrow> (result, [TryingMatch db coll], w1))"

text \<open>The query \<^verbatim>\<open>gg.py\<close> hands to its aggregation agent: a fixed text search for the
  request, as JSON text under the key \<^verbatim>\<open>input\<close>.\<close>

definition text_search_query :: "'w env \<Rightarrow> pyval \<Rightarrow> string \<Rightarrow> pyval" where
  "text_search_query env coll user_input =
     PDict [(''input'', PStr (json_dumps env
       (PDict [(''collection'', coll),
               (''pipeline'', PList [PDict [(''$match'',
                  PDict [(''$text'', PDict [(''$search'', PStr user_input)])])]])])))]"

text \<open>The \<^verbatim>\<open>try\<close> block of \<^verbatim>\<open>try_query_with_aggregation\<close> after its first
  \<^verbatim>\<open>print\<close>. The two scripts differ: \<^verbatim>\<open>agent.py\<close> asks the completion call for a
  pipeline and submits what it parsed; \<^verbatim>\<open>gg.py\<close> asks its aggregation agent to run the
  fixed text search.\<close>

fun aggregation_body ::
    "srcfile \<Rightarrow> 'w env \<Rightarrow> pyval \<Rightarrow> pyval \<Rightarrow> string \<Rightarrow> pyval \<Rightarrow> 'w \<Rightarrow> (exn + pyval) \<times> 'w" where
  "aggregation_body AgentPy env db coll user_input schema w =
     (case llm_invoke env (AggPrompt user_input schema) w of
        (Inl e, w1) \<Rightarrow> (Inl e, w1)
      | (Inr content, w1) \<Rightarrow>
          (case json_loads env (py_strip content) of
             Inl e \<Rightarrow> (Inl e, w1)
           | Inr pipeline \<Rightarrow> aggregate env db coll pipeline w1))"
| "aggregation_body GgPy env db coll user_input schema w =
     aggregation_agent env (text_search_query env coll user_input) w"

fun aggregation_failed :: "srcfile \<Rightarrow> pyval \<Rightarrow> pyval \<Rightarrow> exn \<Rightarrow> event" where
  "aggregation_failed AgentPy db coll e = AggregationFailed e"
| "aggregation_failed GgPy db coll e = AggregationFailedOn db coll e"

text \<open>\<^verbatim>\<open>try_query_with_aggregation(llm, client, db, coll, user_input, schema)\<close>.\<close>

definition try_query_with_aggregation ::
    "srcfile \<Rightarrow> 'w env \<Rightarrow> pyval \<Rightarrow> pyval \<Rightarrow> string \<Rightarrow> pyval \<Rightarrow> 'w \<Rightarrow> pyval \<times> event list \<times> 'w" where
  "try_query_with_aggregation sf env db coll user_input schema w =
     (case aggregation_body sf env db coll user_input schema w of
        (Inl e, w1) \<Rightarrow> (PNone, [TryingAggregation db coll, aggregation_failed sf db coll e], w1)
      | (Inr result, w1) \<Rightarrow> (result, [TryingAggregation db coll], w1))"

section \<open>The controller\<close>

text \<open>
  The \<^verbatim>\<open>for candidate in candidates\<close> loop of \<^verbatim>\<open>main\<close>, the same text in both files.
  The result is \<open>Inr (Some r)\<close> when the loop ends at a \<^verbatim>\<open>break\<close> with result \<open>r\<close>,
  \<open>Inr None\<close> when it runs off the end of the candidates, and \<open>Inl e\<close> when the exception
  \<open>e\<close> leaves it: the two subscripts of the candidate stand outside every \<^verbatim>\<open>try\<close>.
\<close>

fun candidate_loop ::
    "srcfile \<Rightarrow> 'w env \<Rightarrow> string \<Rightarrow> pyval list \<Rightarrow> 'w \<Rightarrow> (exn + pyval option) \<times> event list \<times> 'w" where
  "candidate_loop sf env user_input [] w = (Inr None, [], w)"
| "candidate_loop sf env user_input (candidate # rest) w =
     (case py_getitem candidate ''database'' of
        Inl e \<Rightarrow> (Inl e, [], w)
      | Inr db \<Rightarrow>
     (case py_getitem candidate ''collection'' of
        Inl e \<Rightarrow> (Inl e, [], w)
      | Inr coll \<Rightarrow>
     (case get_collection_schema env db coll w of
        (Inl schema_error, w1) \<Rightarrow>
          (case candidate_loop sf env user_input rest w1 of
             (r, log, w') \<Rightarrow> (r, SchemaLoadFailed db coll schema_error # log, w'))
      | (Inr schema, w1) \<Rightarrow>
     (case try_query_with_match sf env db coll user_input schema w1 of
        (match_result, log_m, w2) \<Rightarrow>
          if truthy match_result
          then (Inr (Some match_result), log_m @ [MatchResult db coll match_result], w2)
          else
     (case try_query_with_aggregation sf env db coll user_input schema w2 of
        (agg_result, log_a, w3) \<Rightarrow>
          if truthy agg_result
          then (Inr (Some agg_result), log_m @ log_a @ [AggregationResult db coll agg_result], w3)
          else
            (case candidate_loop sf env user_input rest w3 of
               (r, log, w') \<Rightarrow> (r, log_m @ log_a @ log, w')))))))"

text \<open>
  The retry path of \<^verbatim>\<open>main\<close>: ranking, the loop, and the loop's \<^verbatim>\<open>else\<close>.
  Iterating over what the ranker returned is outside every \<^verbatim>\<open>try\<close> as well.
\<close>

definition retry_path ::
    "srcfile \<Rightarrow> 'w env \<Rightarrow> string \<Rightarrow> 'w \<Rightarrow> (exn + pyval option) \<times> event list \<times> 'w" where
  "retry_path sf env user_input w =
     (case suggest_db_collection_candidates sf env user_input w of
        (candidates, log_s, w1) \<Rightarrow>
          (case py_iter candidates of
             Inl e \<Rightarrow> (Inl e, log_s, w1)
           | Inr cs \<Rightarrow>
               (case candidate_loop sf env user_input cs w1 of
                  (Inl e, log, w2) \<Rightarrow> (Inl e, log_s @ log, w2)
                | (Inr (Some r), log, w2) \<Rightarrow> (Inr (Some r), log_s @ log, w2)
                | (Inr None, log, w2) \<Rightarrow> (Inr None, log_s @ log @ [AllRetriesFailed], w2))))"

text \<open>The \<^verbatim>\<open>try\<close> block at the head of the \<^verbatim>\<open>while\<close> loop, from the planning call
  on, for a request that is not \<^verbatim>\<open>exit\<close> or \<^verbatim>\<open>quit\<close>.\<close>

definition agent_attempt :: "srcfile \<Rightarrow> 'w env \<Rightarrow> string \<Rightarrow> 'w \<Rightarrow> (exn + pyval) \<times> event list \<times> 'w" where
  "agent_attempt sf env user_input w =
     (case llm_invoke env (PlanPrompt sf user_input) w of
        (Inl e, w1) \<Rightarrow> (Inl e, [Planning], w1)
      | (Inr plan, w1) \<Rightarrow>
          (case agent_run env user_input w1 of
             (Inl e, w2) \<Rightarrow> (Inl e, [Planning, Steps plan, Executing], w2)
           | (Inr result, w2) \<Rightarrow>
               if is_str_containing ''Found 0'' result
               then (Inl (ValueError ''No documents found''), [Planning, Steps plan, Executing], w2)
               else (Inr result, [Planning, Steps plan, Executing, AgentResult result], w2)))"

text \<open>One resolution attempt: one pass through the body of the \<^verbatim>\<open>while\<close> loop.\<close>

definition resolution_attempt ::
    "srcfile \<Rightarrow> 'w env \<Rightarrow> string \<Rightarrow> 'w \<Rightarrow> (exn + pyval option) \<times> event list \<times> 'w" where
  "resolution_attempt sf env user_input w =
     (case agent_attempt sf env user_input w of
        (Inr result, log, w1) \<Rightarrow> (Inr (Some result), log, w1)
      | (Inl e, log, w1) \<Rightarrow>
          (case retry_path sf env user_input w1 of
             (r, log_r, w2) \<Rightarrow> (r, log @ [AgentFallback e] @ log_r, w2)))"

section \<open>Notions used in the statements\<close>

text \<open>The rewrite applied twice with the same schema.\<close>

definition rewrite_twice :: "pyval \<Rightarrow> pyval \<Rightarrow> exn + pyval" where
  "rewrite_twice f schema =
     (case make_case_insensitive f schema of
        Inl e \<Rightarrow> Inl e
      | Inr g \<Rightarrow> make_case_insensitive g schema)"

text \<open>A value the rewrite leaves alone when it stands under the key \<open>k\<close>.\<close>

definition fixed_value :: "pyval \<Rightarrow> string \<Rightarrow> pyval \<Rightarrow> bool" where
  "fixed_value schema k v =
     (case v of
        PStr x \<Rightarrow> in_string_fields k schema = Inr False
      | PDict d \<Rightarrow> make_case_insensitive (PDict d) schema = Inr (PDict d)
      | _ \<Rightarrow> True)"

section \<open>Sample data\<close>

text \<open>
  A small world to run the definitions in: one database of cars whose collections answer
  differently, a completion call that answers by the kind of prompt and by the request,
  and a parser that knows the handful of texts the completion call produces.
\<close>

definition cars_schema :: pyval where
  "cars_schema = PDict [(''fields'', PList []), (''string_fields'', PList [PStr ''make'', PStr ''color''])]"

definition red_filter :: pyval where
  "red_filter = PDict [(''color'', PStr ''red''), (''year'', PInt 2020),
                       (''owner'', PDict [(''make'', PStr ''Audi''), (''name'', PStr ''Bob'')])]"

definition dollar_schema :: pyval where
  "dollar_schema = PDict [(''string_fields'', PList [PStr ''name'', PStr ''$regex''])]"

definition field_desc :: "string \<Rightarrow> string \<Rightarrow> pyval" where
  "field_desc n t = PDict [(''name'', PStr n), (''bsonType'', PStr t)]"

definition cars_reply :: pyval where
  "cars_reply = PDict [(''fields'',
     PList [field_desc ''make'' ''string'', field_desc ''color'' ''string'', field_desc ''year'' ''int''])]"

definition cars_full :: pyval where
  "cars_full = PDict [(''fields'',
     PList [field_desc ''make'' ''string'', field_desc ''color'' ''string'', field_desc ''year'' ''int'']),
     (''string_fields'', PList [PStr ''make'', PStr ''color''])]"

definition two_cars :: pyval where
  "two_cars = PList [PDict [(''make'', PStr ''Fiat''), (''color'', PStr ''Red'')],
                     PDict [(''make'', PStr ''Audi''), (''color'', PStr ''red'')]]"

definition sample_loads :: "string \<Rightarrow> exn + pyval" where
  \<open>sample_loads s =
     (if s = ''{"color": "red"}'' then Inr (PDict [(''color'', PStr ''red'')])
      else if s = ''[{"$sort": {"year": 1}}]''
        then Inr (PList [PDict [(''$sort'', PDict [(''year'', PInt 1)])]])
      else if s = ''[{"database": "car_database", "collection": "cars"}]''
        then Inr (PList [PDict [(''database'', PStr ''car_database''), (''collection'', PStr ''cars'')]])
      else if s = ''[{"db": "car_database"}]''
        then Inr (PList [PDict [(''db'', PStr ''car_database'')]])
      else if s = ''{"note": "nothing fits"}''
        then Inr (PDict [(''note'', PStr ''nothing fits'')])
      else Inl JSONDecodeError)\<close>

definition sample_llm :: "prompt \<Rightarrow> exn + string" where
  \<open>sample_llm p =
     (case p of
        PlanPrompt sf ui \<Rightarrow> Inr ''1. find the collection 2. query it''
      | RankPrompt sf ui m \<Rightarrow>
          if ui = ''completion down'' then Inl (CollabError ''completion'')
          else if ui = ''chatty ranking'' then Inr ''Here are my suggestions:''
          else if ui = ''ranking without keys'' then Inr ''[{"db": "car_database"}]''
          else if ui = ''ranking as object'' then Inr ''{"note": "nothing fits"}''
          else Inr ''[{"database": "car_database", "collection": "cars"}]''
      | MatchPrompt sf ui schema \<Rightarrow>
          if ui = ''completion down'' then Inl (CollabError ''completion'')
          else Inr '' {"color": "red"} ''
      | AggPrompt ui schema \<Rightarrow>
          if ui = ''completion down'' then Inl (CollabError ''completion'')
          else if ui = ''chatty pipeline'' then Inr ''Sure, here is the pipeline''
          else Inr ''[{"$sort": {"year": 1}}]'')\<close>

fun is_match_pipeline :: "pyval \<Rightarrow> bool" where
  "is_match_pipeline (PList [PDict [(k, v)]]) = (k = ''$match'')"
| "is_match_pipeline x = False"

definition sample_aggregate :: "pyval \<Rightarrow> pyval \<Rightarrow> pyval \<Rightarrow> exn + pyval" where
  "sample_aggregate db coll pipeline =
     (if coll = PStr ''cars'' then
        (if is_match_pipeline pipeline then Inr (PStr ''Found 0 documents'') else Inr two_cars)
      else if coll = PStr ''trucks'' then
        (if is_match_pipeline pipeline then Inl (CollabError ''timeout'') else Inr (PList []))
      else if coll = PStr ''bikes'' then Inr (PList [])
      else Inl (CollabError ''no such collection''))"

definition sample_schema :: "pyval \<Rightarrow> pyval \<Rightarrow> exn + pyval" where
  "sample_schema db coll =
     (if db = PStr ''car_database'' \<and> coll \<in> {PStr ''cars'', PStr ''trucks'', PStr ''bikes''}
      then Inr cars_reply
      else if db = PStr ''car_database'' \<and> coll = PStr ''scrap'' then Inr (PDict [])
      else Inl (CollabError ''no such collection''))"

definition sample_tool :: "string \<Rightarrow> pyval \<Rightarrow> nat \<Rightarrow> exn + pyval" where
  "sample_tool name args w =
     (if name = ''list-databases'' then
        (if 100 \<le> w then Inl (CollabError ''connection refused'')
         else if 50 \<le> w then
           Inr (PDict [(''databases'',
                  PList [PDict [(''name'', PStr ''archive'')], PDict [(''name'', PStr ''car_database'')]])])
         else Inr (PDict [(''databases'', PList [PDict [(''name'', PStr ''car_database'')]])]))
      else if name = ''list-collections'' then
        (if args = PDict [(''database'', PStr ''car_database'')]
         then Inr (PDict [(''collections'', PList [PDict [(''name'', PStr ''cars'')]])])
         else Inl (CollabError ''not authorized''))
      else Inl (CollabError ''no such tool''))"

text \<open>The printer, for the one shape of value \<^verbatim>\<open>gg.py\<close> prints.\<close>

definition sample_dumps :: "pyval \<Rightarrow> string" where
  \<open>sample_dumps v =
     (case v of
        PDict [(k1, PStr c), (k2, PList [PDict [(k3, PDict [(k4, PDict [(k5, PStr q)])])]])] \<Rightarrow>
          ''{"'' @ k1 @ ''": "'' @ c @ ''", "'' @ k2 @ ''": [{"'' @ k3 @ ''": {"'' @ k4
            @ ''": {"'' @ k5 @ ''": "'' @ q @ ''"}}}]}''
      | _ \<Rightarrow> ''null'')\<close>

text \<open>The aggregation agent of \<^verbatim>\<open>gg.py\<close> answers the text searches it understands.\<close>

definition sample_agent :: "pyval \<Rightarrow> nat \<Rightarrow> exn + pyval" where
  \<open>sample_agent q w =
     (if 100 \<le> w then Inl (CollabError ''agent'')
      else if q \<in> {
          PDict [(''input'', PStr
            ''{"collection": "cars", "pipeline": [{"$match": {"$text": {"$search": "red cars"}}}]}'')],
          PDict [(''input'', PStr
            ''{"collection": "bikes", "pipeline": [{"$match": {"$text": {"$search": "red cars"}}}]}'')],
          PDict [(''input'', PStr
            ''{"collection": "cars", "pipeline": [{"$match": {"$text": {"$search": "completion down"}}}]}'')]}
        then Inr two_cars
      else Inl (CollabError ''bad request''))\<close>

text \<open>The sample world is the number of calls made so far.\<close>

definition sample_env :: "nat env" where
  "sample_env =
     \<lparr> llm_invoke = (\<lambda>p w. (sample_llm p, Suc w)),
       tool_invoke = (\<lambda>name args w. (sample_tool name args w, Suc w)),
       collection_schema = (\<lambda>db coll w. (sample_schema db coll, Suc w)),
       aggregate = (\<lambda>db coll pipeline w. (sample_aggregate db coll pipeline, Suc w)),
       agent_run = (\<lambda>ui w. (Inl (CollabError ''agent''), Suc w)),
       aggregation_agent = (\<lambda>q w. (sample_agent q w, Suc w)),
       json_loads = sample_loads,
       json_dumps = sample_dumps \<rparr>"

definition candidate :: "string \<Rightarrow> string \<Rightarrow> pyval" where
  "candidate db coll = PDict [(''database'', PStr db), (''collection'', PStr coll)]"

lemmas sample_defs = sample_env_def sample_tool_def sample_schema_def sample_aggregate_def
  sample_llm_def sample_loads_def sample_dumps_def sample_agent_def cars_reply_def field_desc_def two_cars_def cars_full_def candidate_def

section \<open>Stripping\<close>

lemma py_strip_code_points:
  "py_strip ([CHR 0xA0, CHR 0x09] @ ''[]'' @ [CHR 0x0A, CHR 0x85]) = ''[]''"
  "py_strip ''a b'' = ''a b''"
  by (simp_all add: py_strip_def is_space_def)

section \<open>Dictionaries\<close>

lemma dict_set_fresh: "k \<notin> fst ` set d \<Longrightarrow> dict_set d k v = d @ [(k, v)]"
  by (induction d) auto

lemma dict_set_keys: "fst ` set (dict_set d k v) = insert k (fst ` set d)"
proof (induction d)
  case Nil
  show ?case by simp
next
  case (Cons a d)
  obtain k' v' where a: "a = (k', v')" by (cases a)
  show ?case using Cons.IH by (simp add: a insert_commute)
qed

lemma dict_set_distinct: "distinct (map fst d) \<Longrightarrow> distinct (map fst (dict_set d k v))"
proof (induction d)
  case Nil
  then show ?case by simp
next
  case (Cons a d)
  then show ?case using dict_set_keys [of d k v] by (cases a) auto
qed


section \<open>The rewrite is idempotent on its own output\<close>

lemma in_string_fields_error:
  "in_string_fields k schema = Inl e \<Longrightarrow> in_string_fields k' schema = Inl e"
  unfolding in_string_fields_def
  apply (cases schema; simp split: option.splits sum.splits)
  subgoal for d x by (cases x; simp)
  done


lemma mci_items_fixed:
  "distinct (map fst (acc @ r)) \<Longrightarrow> list_all (\<lambda>(k, v). fixed_value schema k v) r
   \<Longrightarrow> mci_items r schema acc = Inr (acc @ r)"
proof (induction r arbitrary: acc)
  case Nil
  then show ?case by simp
next
  case (Cons kv r)
  obtain k v where kv: "kv = (k, v)" by (cases kv)
  from Cons.prems have fresh: "k \<notin> fst ` set acc" and fx: "fixed_value schema k v"
    and rest: "list_all (\<lambda>(k, v). fixed_value schema k v) r"
    and d: "distinct (map fst ((acc @ [(k, v)]) @ r))"
    by (auto simp: kv)
  have step: "mci_items r schema (acc @ [(k, v)]) = Inr ((acc @ [(k, v)]) @ r)"
    by (rule Cons.IH [OF d rest])
  show ?case using fx step fresh
    by (cases v) (simp_all add: kv fixed_value_def dict_set_fresh)
qed

lemma regex_condition_fixed:
  assumes "in_string_fields ''$regex'' schema \<noteq> Inr True"
      and "in_string_fields ''$options'' schema \<noteq> Inr True"
      and "in_string_fields k schema = Inr b"
  shows "make_case_insensitive (regex_condition v) schema = Inr (regex_condition v)"
proof -
  have r: "in_string_fields ''$regex'' schema = Inr False"
    using assms(1,3) in_string_fields_error [of "''$regex''" schema _ k]
    by (cases "in_string_fields ''$regex'' schema") auto
  have o: "in_string_fields ''$options'' schema = Inr False"
    using assms(2,3) in_string_fields_error [of "''$options''" schema _ k]
    by (cases "in_string_fields ''$options'' schema") auto
  show ?thesis by (simp add: regex_condition_def r o)
qed

lemma dict_set_list_all:
  "list_all P d \<Longrightarrow> P (k, v) \<Longrightarrow> list_all P (dict_set d k v)"
  by (induction d) auto

lemma mci_dict_result:
  "make_case_insensitive (PDict d) schema = Inr g \<Longrightarrow> \<exists>res. g = PDict res \<and> mci_items d schema [] = Inr res"
  by (auto split: sum.splits)

lemma mci_results_fixed:
  assumes r: "in_string_fields ''$regex'' schema \<noteq> Inr True"
      and o: "in_string_fields ''$options'' schema \<noteq> Inr True"
  shows "make_case_insensitive f schema = Inr g \<Longrightarrow> make_case_insensitive g schema = Inr g"
    and "mci_items items schema acc = Inr res \<Longrightarrow> distinct (map fst acc)
            \<Longrightarrow> list_all (\<lambda>(k, v). fixed_value schema k v) acc
            \<Longrightarrow> distinct (map fst res) \<and> list_all (\<lambda>(k, v). fixed_value schema k v) res"
  using r o
proof (induction f schema and items schema acc arbitrary: g and res
        rule: make_case_insensitive_mci_items.induct)
  case (1 d schema)
  from "1.prems"(1) obtain res where g: "g = PDict res" and res: "mci_items d schema [] = Inr res"
    using mci_dict_result by blast
  from "1.IH" [OF res _ _ "1.prems"(2,3)]
  have "distinct (map fst res)" and "list_all (\<lambda>(k, v). fixed_value schema k v) res"
    by simp_all
  then have "mci_items res schema [] = Inr res"
    using mci_items_fixed [of "[]" res schema] by simp
  then show ?case by (simp add: g)
next
  case (8 k v rest schema result)
  show ?case
  proof (cases "in_string_fields k schema")
    case (Inl e)
    with "8.prems"(1) show ?thesis by simp
  next
    case (Inr b)
    show ?thesis
    proof (cases b)
      case True
      then have bt: "b = True" by simp
      have fx: "fixed_value schema k (regex_condition v)"
        using regex_condition_fixed [OF "8.prems"(4,5) Inr, of v]
        by (simp add: fixed_value_def regex_condition_def)
      have run: "mci_items rest schema (dict_set result k (regex_condition v)) = Inr res"
        using "8.prems"(1) Inr True by simp
      show ?thesis
        using "8.IH"(1) [OF Inr bt run _ _ "8.prems"(4,5)] "8.prems"(2,3) fx
        by (simp add: dict_set_distinct dict_set_list_all)
    next
      case False
      then have bf: "b = False" by simp
      have fx: "fixed_value schema k (PStr v)"
        using Inr False by (simp add: fixed_value_def)
      have run: "mci_items rest schema (dict_set result k (PStr v)) = Inr res"
        using "8.prems"(1) Inr False by simp
      show ?thesis
        using "8.IH"(2) [OF Inr bf run _ _ "8.prems"(4,5)] "8.prems"(2,3) fx
        by (simp add: dict_set_distinct dict_set_list_all)
    qed
  qed
next
  case (9 k d rest schema result)
  show ?case
  proof (cases "make_case_insensitive (PDict d) schema")
    case (Inl e)
    with "9.prems"(1) show ?thesis by simp
  next
    case (Inr v')
    obtain d' where v': "v' = PDict d'" using mci_dict_result [OF Inr] by blast
    have "make_case_insensitive v' schema = Inr v'"
      by (rule "9.IH"(1) [OF Inr "9.prems"(4,5)])
    then have fx: "fixed_value schema k v'"
      by (simp add: fixed_value_def v')
    have run: "mci_items rest schema (dict_set result k v') = Inr res"
      using "9.prems"(1) Inr by simp
    show ?thesis
      using "9.IH"(2) [OF Inr run _ _ "9.prems"(4,5)] "9.prems"(2,3) fx
      by (simp add: dict_set_distinct dict_set_list_all)
  qed
qed (auto simp: fixed_value_def dict_set_distinct dict_set_list_all)

text \<open>
  Claim C4, as amended: for every filter and every schema whose string-field set holds neither
  \<^verbatim>\<open>$regex\<close> nor \<^verbatim>\<open>$options\<close>, rewriting twice gives what rewriting once gives,
  an error of the first pass included.
\<close>

theorem make_case_insensitive_idempotent:
  assumes "in_string_fields ''$regex'' schema \<noteq> Inr True"
      and "in_string_fields ''$options'' schema \<noteq> Inr True"
  shows "rewrite_twice f schema = make_case_insensitive f schema"
proof (cases "make_case_insensitive f schema")
  case (Inl e)
  then show ?thesis by (simp add: rewrite_twice_def)
next
  case (Inr g)
  then show ?thesis
    using mci_results_fixed(1) [OF assms Inr] by (simp add: rewrite_twice_def)
qed

theorem make_case_insensitive_idempotent_witness:
  "in_string_fields ''$regex'' cars_schema \<noteq> Inr True \<and>
   in_string_fields ''$options'' cars_schema \<noteq> Inr True \<and>
   rewrite_twice red_filter cars_schema = make_case_insensitive red_filter cars_schema \<and>
   make_case_insensitive red_filter cars_schema =
     Inr (PDict [(''color'', PDict [(''$regex'', PStr ''red''), (''$options'', PStr ''i'')]),
                 (''year'', PInt 2020),
                 (''owner'', PDict [(''make'', PDict [(''$regex'', PStr ''Audi''), (''$options'', PStr ''i'')]),
                                    (''name'', PStr ''Bob'')])])"
proof -
  have r: "in_string_fields ''$regex'' cars_schema \<noteq> Inr True"
    by (simp add: in_string_fields_def cars_schema_def)
  have o: "in_string_fields ''$options'' cars_schema \<noteq> Inr True"
    by (simp add: in_string_fields_def cars_schema_def)
  have v: "make_case_insensitive red_filter cars_schema =
     Inr (PDict [(''color'', PDict [(''$regex'', PStr ''red''), (''$options'', PStr ''i'')]),
                 (''year'', PInt 2020),
                 (''owner'', PDict [(''make'', PDict [(''$regex'', PStr ''Audi''), (''$options'', PStr ''i'')]),
                                    (''name'', PStr ''Bob'')])])"
    by (simp add: in_string_fields_def cars_schema_def red_filter_def regex_condition_def)
  show ?thesis
    using make_case_insensitive_idempotent [OF r o, of red_filter] r o v by simp
qed

text \<open>
  Claim C4 as stated fails for a schema that has a string field named \<^verbatim>\<open>$regex\<close>: the
  second pass wraps the pattern of the first.
\<close>

theorem make_case_insensitive_rewraps:
  "rewrite_twice (PDict [(''name'', PStr ''bob'')]) dollar_schema =
     Inr (PDict [(''name'', PDict [(''$regex'', PDict [(''$regex'', PStr ''bob''), (''$options'', PStr ''i'')]),
                                   (''$options'', PStr ''i'')])])
   \<and> make_case_insensitive (PDict [(''name'', PStr ''bob'')]) dollar_schema =
     Inr (PDict [(''name'', PDict [(''$regex'', PStr ''bob''), (''$options'', PStr ''i'')])])
   \<and> rewrite_twice (PDict [(''name'', PStr ''bob'')]) dollar_schema
       \<noteq> make_case_insensitive (PDict [(''name'', PStr ''bob'')]) dollar_schema"
  by (simp add: rewrite_twice_def in_string_fields_def dollar_schema_def regex_condition_def)

section \<open>The candidate loop\<close>

lemma candidate_loop_append:
  "candidate_loop sf env ui pre w = (Inr None, log0, w0) \<Longrightarrow>
   candidate_loop sf env ui (pre @ post) w =
     (case candidate_loop sf env ui post w0 of (r, log, w') \<Rightarrow> (r, log0 @ log, w'))"
proof (induction pre arbitrary: w log0)
  case Nil
  then show ?case by (simp split: prod.splits)
next
  case (Cons c pre)
  show ?case using Cons.prems
    by (auto simp: Cons.IH split: sum.splits prod.splits if_splits)
qed

lemma candidate_loop_schema_failed:
  assumes "py_getitem c ''database'' = Inr db" "py_getitem c ''collection'' = Inr coll"
      and "get_collection_schema env db coll w = (Inl e, w1)"
  shows "candidate_loop sf env ui (c # post) w =
     (case candidate_loop sf env ui post w1 of (r, log, w') \<Rightarrow> (r, SchemaLoadFailed db coll e # log, w'))"
  using assms by simp

lemma candidate_loop_schema_ok:
  assumes "py_getitem c ''database'' = Inr db" "py_getitem c ''collection'' = Inr coll"
      and "get_collection_schema env db coll w = (Inr schema, w1)"
      and "try_query_with_match sf env db coll ui schema w1 = (m, log_m, w2)"
  shows "candidate_loop sf env ui (c # post) w =
     (if truthy m then (Inr (Some m), log_m @ [MatchResult db coll m], w2)
      else (case try_query_with_aggregation sf env db coll ui schema w2 of
              (a, log_a, w3) \<Rightarrow>
                if truthy a then (Inr (Some a), log_m @ log_a @ [AggregationResult db coll a], w3)
                else (case candidate_loop sf env ui post w3 of
                        (r, log, w') \<Rightarrow> (r, log_m @ log_a @ log, w'))))"
  using assms by simp

lemmas run_defs = get_collection_schema_def classify_schema_def try_query_with_match_def
      try_query_with_aggregation_def match_body_def py_strip_def is_space_def
      in_string_fields_def regex_condition_def retry_path_def suggest_db_collection_candidates_def
      suggest_body_def retrieve_inventory_def listed_names_def list_collections_into_def
      inventory_set_def default_candidates_def text_search_query_def resolution_attempt_def
      agent_attempt_def

lemma block_value_is_returned:
  "match_body sf env db coll ui schema w = (Inr m, w') \<Longrightarrow>
   try_query_with_match sf env db coll ui schema w = (m, [TryingMatch db coll], w')"
  "aggregation_body sf env db coll ui schema w = (Inr a, w') \<Longrightarrow>
   try_query_with_aggregation sf env db coll ui schema w = (a, [TryingAggregation db coll], w')"
  by (simp_all add: try_query_with_match_def try_query_with_aggregation_def)

lemma block_exception_is_none:
  "match_body sf env db coll ui schema w = (Inl e, w') \<Longrightarrow>
   try_query_with_match sf env db coll ui schema w
     = (PNone, [TryingMatch db coll, MatchFailed db coll e], w')"
  "aggregation_body sf env db coll ui schema w = (Inl e, w') \<Longrightarrow>
   try_query_with_aggregation sf env db coll ui schema w
     = (PNone, [TryingAggregation db coll, aggregation_failed sf db coll e], w')"
  by (simp_all add: try_query_with_match_def try_query_with_aggregation_def)


text \<open>
  Beyond the claims (X2), the loop itself, in both scripts: at any candidate it reaches, if the
  schema is fetched, the filter strategy returns a value that is false in Python's sense
  (\<^verbatim>\<open>None\<close> after an exception, or an empty payload) and the pipeline strategy returns a
  value \<open>x\<close> that is true, the loop ends with \<open>x\<close>, having run the filter strategy and
  then, in the world it left, the pipeline strategy.
\<close>

theorem aggregate_success_is_final_output:
  assumes "candidate_loop sf env ui pre w = (Inr None, log0, w0)"
      and "py_getitem c ''database'' = Inr db" and "py_getitem c ''collection'' = Inr coll"
      and "get_collection_schema env db coll w0 = (Inr schema, wa)"
      and "try_query_with_match sf env db coll ui schema wa = (m, log_m, wb)"
      and "\<not> truthy m"
      and "try_query_with_aggregation sf env db coll ui schema wb = (x, log_a, wc)"
      and "truthy x"
  shows "candidate_loop sf env ui (pre @ c # post) w =
           (Inr (Some x), log0 @ log_m @ log_a @ [AggregationResult db coll x], wc)"
proof -
  have "candidate_loop sf env ui (c # post) w0 =
          (Inr (Some x), log_m @ log_a @ [AggregationResult db coll x], wc)"
    using candidate_loop_schema_ok [OF assms(2,3,4,5), of post] assms(6,7,8) by simp
  then show ?thesis
    using candidate_loop_append [OF assms(1), of "c # post"] by simp
qed

theorem aggregate_success_is_final_output_witness:
  "candidate_loop AgentPy sample_env ''red cars''
     ([candidate ''car_database'' ''trucks''] @ candidate ''car_database'' ''cars''
        # [candidate ''car_database'' ''bikes'']) 0 =
   (Inr (Some two_cars),
    [TryingMatch (PStr ''car_database'') (PStr ''trucks''),
     MatchFailed (PStr ''car_database'') (PStr ''trucks'') (CollabError ''timeout''),
     TryingAggregation (PStr ''car_database'') (PStr ''trucks'')]
    @ [TryingMatch (PStr ''car_database'') (PStr ''cars''),
       MatchFailed (PStr ''car_database'') (PStr ''cars'') (ValueError ''No data found'')]
    @ [TryingAggregation (PStr ''car_database'') (PStr ''cars'')]
    @ [AggregationResult (PStr ''car_database'') (PStr ''cars'') two_cars],
    10)"
proof -
  have pre: "candidate_loop AgentPy sample_env ''red cars'' [candidate ''car_database'' ''trucks''] 0 =
    (Inr None, [TryingMatch (PStr ''car_database'') (PStr ''trucks''),
     MatchFailed (PStr ''car_database'') (PStr ''trucks'') (CollabError ''timeout''),
     TryingAggregation (PStr ''car_database'') (PStr ''trucks'')], 5)"
    by (simp add: run_defs sample_defs)
  have d: "py_getitem (candidate ''car_database'' ''cars'') ''database'' = Inr (PStr ''car_database'')"
    by (simp add: candidate_def)
  have c: "py_getitem (candidate ''car_database'' ''cars'') ''collection'' = Inr (PStr ''cars'')"
    by (simp add: candidate_def)
  have s: "get_collection_schema sample_env (PStr ''car_database'') (PStr ''cars'') 5 = (Inr cars_full, 6)"
    by (simp add: run_defs sample_defs)
  have mb: "match_body AgentPy sample_env (PStr ''car_database'') (PStr ''cars'') ''red cars'' cars_full 6
             = (Inl (ValueError ''No data found''), 8)"
    by (simp add: run_defs sample_defs)
  have ab: "aggregation_body AgentPy sample_env (PStr ''car_database'') (PStr ''cars'') ''red cars'' cars_full 8
             = (Inr two_cars, 10)"
    by (simp add: run_defs sample_defs)
  have f: "\<not> truthy PNone" by simp
  have t: "truthy two_cars" by (simp add: two_cars_def)
  show ?thesis
    by (rule aggregate_success_is_final_output
          [OF pre d c s block_exception_is_none(1) [OF mb] f block_value_is_returned(2) [OF ab] t])
qed

text \<open>
  Claim C2: at any candidate the loop reaches, if fetching the schema raises, the loop prints
  the failure and continues with the next candidate in the world the failed fetch left;
  neither strategy runs for this candidate (nothing of theirs is printed, no call of theirs
  is made).
\<close>

theorem schema_failure_skips_candidate:
  assumes "candidate_loop sf env ui pre w = (Inr None, log0, w0)"
      and "py_getitem c ''database'' = Inr db" and "py_getitem c ''collection'' = Inr coll"
      and "get_collection_schema env db coll w0 = (Inl e, w1)"
  shows "candidate_loop sf env ui (pre @ c # post) w =
           (case candidate_loop sf env ui post w1 of
              (r, log, w') \<Rightarrow> (r, log0 @ SchemaLoadFailed db coll e # log, w'))"
  using candidate_loop_append [OF assms(1), of "c # post"]
        candidate_loop_schema_failed [OF assms(2,3,4), of sf ui post]
  by (simp split: prod.splits)

theorem schema_failure_skips_candidate_witness:
  "candidate_loop GgPy sample_env ''red cars''
     ([] @ candidate ''car_database'' ''vans''
        # [candidate ''car_database'' ''bikes'', candidate ''car_database'' ''cars'']) 0 =
   (case candidate_loop GgPy sample_env ''red cars''
            [candidate ''car_database'' ''bikes'', candidate ''car_database'' ''cars''] 1 of
      (r, log, w') \<Rightarrow>
        (r, [] @ SchemaLoadFailed (PStr ''car_database'') (PStr ''vans'') (CollabError ''no such collection'') # log, w'))
   \<and> candidate_loop GgPy sample_env ''red cars''
            [candidate ''car_database'' ''vans'', candidate ''car_database'' ''bikes''] 0
     = (Inr (Some two_cars),
        [SchemaLoadFailed (PStr ''car_database'') (PStr ''vans'') (CollabError ''no such collection''),
         TryingMatch (PStr ''car_database'') (PStr ''bikes''),
         TryingAggregation (PStr ''car_database'') (PStr ''bikes''),
         AggregationResult (PStr ''car_database'') (PStr ''bikes'') two_cars], 5)"
proof -
  have pre: "candidate_loop GgPy sample_env ''red cars'' [] 0 = (Inr None, [], 0)"
    by simp
  have d: "py_getitem (candidate ''car_database'' ''vans'') ''database'' = Inr (PStr ''car_database'')"
    by (simp add: candidate_def)
  have c: "py_getitem (candidate ''car_database'' ''vans'') ''collection'' = Inr (PStr ''vans'')"
    by (simp add: candidate_def)
  have s: "get_collection_schema sample_env (PStr ''car_database'') (PStr ''vans'') 0
             = (Inl (CollabError ''no such collection''), 1)"
    by (simp add: run_defs sample_defs)
  have run: "candidate_loop GgPy sample_env ''red cars''
            [candidate ''car_database'' ''vans'', candidate ''car_database'' ''bikes''] 0
     = (Inr (Some two_cars),
        [SchemaLoadFailed (PStr ''car_database'') (PStr ''vans'') (CollabError ''no such collection''),
         TryingMatch (PStr ''car_database'') (PStr ''bikes''),
         TryingAggregation (PStr ''car_database'') (PStr ''bikes''),
         AggregationResult (PStr ''car_database'') (PStr ''bikes'') two_cars], 5)"
    by (simp add: run_defs sample_defs)
  show ?thesis
    using schema_failure_skips_candidate [OF pre d c s,
        of "[candidate ''car_database'' ''bikes'', candidate ''car_database'' ''cars'']"] run
    by simp
qed

text \<open>
  Claim C10: the loop looks only at whether the value a strategy returned is true in Python's
  sense. At any candidate the loop reaches, a filter strategy that returns a false value,
  be it \<^verbatim>\<open>None\<close> after an exception or an empty payload after a block that ended
  normally (\<open>block_value_is_returned\<close>), is followed by the pipeline strategy in the world
  it left; nothing is reported for it. A true value of the pipeline strategy ends the loop;
  a false one, again of either kind, sends the loop to the next candidate.
\<close>

theorem falsy_success_is_treated_as_failure:
  assumes "candidate_loop sf env ui pre w = (Inr None, log0, w0)"
      and "py_getitem c ''database'' = Inr db" and "py_getitem c ''collection'' = Inr coll"
      and "get_collection_schema env db coll w0 = (Inr schema, wa)"
      and "try_query_with_match sf env db coll ui schema wa = (m, log_m, wb)"
      and "\<not> truthy m"
  shows "candidate_loop sf env ui (pre @ c # post) w =
           (case try_query_with_aggregation sf env db coll ui schema wb of
              (a, log_a, wc) \<Rightarrow>
                if truthy a
                then (Inr (Some a), log0 @ log_m @ log_a @ [AggregationResult db coll a], wc)
                else (case candidate_loop sf env ui post wc of
                        (r, log, w') \<Rightarrow> (r, log0 @ log_m @ log_a @ log, w')))"
proof -
  have "candidate_loop sf env ui (c # post) w0 =
          (case try_query_with_aggregation sf env db coll ui schema wb of
              (a, log_a, wc) \<Rightarrow>
                if truthy a
                then (Inr (Some a), log_m @ log_a @ [AggregationResult db coll a], wc)
                else (case candidate_loop sf env ui post wc of
                        (r, log, w') \<Rightarrow> (r, log_m @ log_a @ log, w')))"
    using candidate_loop_schema_ok [OF assms(2,3,4,5), of post] assms(6) by simp
  then show ?thesis
    using candidate_loop_append [OF assms(1), of "c # post"]
    by (simp split: prod.splits)
qed

theorem falsy_success_is_treated_as_failure_witness:
  "match_body AgentPy sample_env (PStr ''car_database'') (PStr ''bikes'') ''red cars'' cars_full 6
     = (Inr (PList []), 8)
   \<and> aggregation_body AgentPy sample_env (PStr ''car_database'') (PStr ''bikes'') ''red cars'' cars_full 8
     = (Inr (PList []), 10)
   \<and> candidate_loop AgentPy sample_env ''red cars''
     ([candidate ''car_database'' ''trucks''] @ candidate ''car_database'' ''bikes''
        # [candidate ''car_database'' ''cars'']) 0 =
     (Inr (Some two_cars),
      [TryingMatch (PStr ''car_database'') (PStr ''trucks''),
       MatchFailed (PStr ''car_database'') (PStr ''trucks'') (CollabError ''timeout''),
       TryingAggregation (PStr ''car_database'') (PStr ''trucks''),
       TryingMatch (PStr ''car_database'') (PStr ''bikes''),
       TryingAggregation (PStr ''car_database'') (PStr ''bikes''),
       TryingMatch (PStr ''car_database'') (PStr ''cars''),
       MatchFailed (PStr ''car_database'') (PStr ''cars'') (ValueError ''No data found''),
       TryingAggregation (PStr ''car_database'') (PStr ''cars''),
       AggregationResult (PStr ''car_database'') (PStr ''cars'') two_cars],
      15)"
proof -
  have pre: "candidate_loop AgentPy sample_env ''red cars'' [candidate ''car_database'' ''trucks''] 0 =
    (Inr None, [TryingMatch (PStr ''car_database'') (PStr ''trucks''),
     MatchFailed (PStr ''car_database'') (PStr ''trucks'') (CollabError ''timeout''),
     TryingAggregation (PStr ''car_database'') (PStr ''trucks'')], 5)"
    by (simp add: run_defs sample_defs)
  have d: "py_getitem (candidate ''car_database'' ''bikes'') ''database'' = Inr (PStr ''car_database'')"
    by (simp add: candidate_def)
  have c: "py_getitem (candidate ''car_database'' ''bikes'') ''collection'' = Inr (PStr ''bikes'')"
    by (simp add: candidate_def)
  have s: "get_collection_schema sample_env (PStr ''car_database'') (PStr ''bikes'') 5 = (Inr cars_full, 6)"
    by (simp add: run_defs sample_defs)
  have mb: "match_body AgentPy sample_env (PStr ''car_database'') (PStr ''bikes'') ''red cars'' cars_full 6
             = (Inr (PList []), 8)"
    by (simp add: run_defs sample_defs)
  have ab: "aggregation_body AgentPy sample_env (PStr ''car_database'') (PStr ''bikes'') ''red cars'' cars_full 8
             = (Inr (PList []), 10)"
    by (simp add: run_defs sample_defs)
  have f: "\<not> truthy (PList [])" by simp
  have post: "candidate_loop AgentPy sample_env ''red cars'' [candidate ''car_database'' ''cars''] 10 =
    (Inr (Some two_cars),
     [TryingMatch (PStr ''car_database'') (PStr ''cars''),
      MatchFailed (PStr ''car_database'') (PStr ''cars'') (ValueError ''No data found''),
      TryingAggregation (PStr ''car_database'') (PStr ''cars''),
      AggregationResult (PStr ''car_database'') (PStr ''cars'') two_cars], 15)"
    by (simp add: run_defs sample_defs)
  show ?thesis
    using falsy_success_is_treated_as_failure
            [OF pre d c s block_value_is_returned(1) [OF mb] f, of "[candidate ''car_database'' ''cars'']"]
          block_value_is_returned(2) [OF ab] mb ab post
    by simp
qed

section \<open>Exceptions that leave the retry path\<close>

text \<open>
  Claim C3: no error leaves a resolution attempt uncaught. The code does not keep it. When
  the completion call answers the ranking prompt with \<^verbatim>\<open>[{"db": "car_database"}]\<close>, the
  ranker returns that list, and \<^verbatim>\<open>candidate["database"]\<close> raises \<^verbatim>\<open>KeyError\<close> outside
  every \<^verbatim>\<open>try\<close>, in both scripts; an answer that is a JSON object makes the subscript
  raise \<^verbatim>\<open>TypeError\<close> on its first key.
\<close>

theorem malformed_candidate_escapes:
  "suggest_db_collection_candidates AgentPy sample_env ''ranking without keys'' 0
     = (PList [PDict [(''db'', PStr ''car_database'')]], [], 3)
   \<and> retry_path AgentPy sample_env ''ranking without keys'' 0 = (Inl (KeyError ''database''), [], 3)
   \<and> retry_path GgPy sample_env ''ranking without keys'' 0 = (Inl (KeyError ''database''), [], 3)
   \<and> resolution_attempt AgentPy sample_env ''ranking without keys'' 0
       = (Inl (KeyError ''database''),
          [Planning, Steps ''1. find the collection 2. query it'', Executing,
           AgentFallback (CollabError ''agent'')], 5)
   \<and> retry_path AgentPy sample_env ''ranking as object'' 0 = (Inl TypeError, [], 3)"
  by (simp add: run_defs sample_defs)

section \<open>The filter strategy\<close>

lemma match_exception_is_none:
  "match_body sf env db coll ui schema w = (Inl e, w') \<Longrightarrow>
   try_query_with_match sf env db coll ui schema w
     = (PNone, [TryingMatch db coll, MatchFailed db coll e], w')"
  by (simp add: try_query_with_match_def)

text \<open>
  Claim C5, as amended, for \<^verbatim>\<open>agent.py\<close>: a result that is a string containing
  \<^verbatim>\<open>Found 0\<close> raises \<^verbatim>\<open>ValueError("No data found")\<close> inside the block, so the strategy
  prints the same failure line as for any other exception and returns \<^verbatim>\<open>None\<close>, as
  \<open>match_exception_is_none\<close> says of every exception; the loop then runs the pipeline
  strategy.
\<close>

theorem zero_matches_handled_as_exception:
  assumes "py_getitem c ''database'' = Inr db" and "py_getitem c ''collection'' = Inr coll"
      and "get_collection_schema env db coll w0 = (Inr schema, w1)"
      and "llm_invoke env (MatchPrompt AgentPy ui schema) w1 = (Inr content, w2)"
      and "json_loads env (py_strip content) = Inr raw"
      and "make_case_insensitive raw schema = Inr final"
      and "aggregate env db coll (PList [PDict [(''$match'', final)]]) w2 = (Inr (PStr text), w3)"
      and "sublist ''Found 0'' text"
  shows "match_body AgentPy env db coll ui schema w1 = (Inl (ValueError ''No data found''), w3)
       \<and> try_query_with_match AgentPy env db coll ui schema w1
           = (PNone, [TryingMatch db coll, MatchFailed db coll (ValueError ''No data found'')], w3)
       \<and> candidate_loop AgentPy env ui (c # rest) w0 =
           (case try_query_with_aggregation AgentPy env db coll ui schema w3 of
              (a, log_a, w4) \<Rightarrow>
                if truthy a
                then (Inr (Some a),
                      [TryingMatch db coll, MatchFailed db coll (ValueError ''No data found'')]
                        @ log_a @ [AggregationResult db coll a], w4)
                else (case candidate_loop AgentPy env ui rest w4 of
                        (r, log, w') \<Rightarrow>
                          (r, [TryingMatch db coll, MatchFailed db coll (ValueError ''No data found'')]
                                @ log_a @ log, w')))"
proof -
  have b: "match_body AgentPy env db coll ui schema w1 = (Inl (ValueError ''No data found''), w3)"
    using assms(4-8) by (simp add: match_body_def)
  have t: "try_query_with_match AgentPy env db coll ui schema w1
           = (PNone, [TryingMatch db coll, MatchFailed db coll (ValueError ''No data found'')], w3)"
    by (rule match_exception_is_none [OF b])
  show ?thesis
    using b t candidate_loop_schema_ok [OF assms(1,2,3) t, of rest] by simp
qed

theorem zero_matches_handled_as_exception_witness:
  "match_body AgentPy sample_env (PStr ''car_database'') (PStr ''cars'') ''red cars'' cars_full 1
     = (Inl (ValueError ''No data found''), 3)
   \<and> try_query_with_match AgentPy sample_env (PStr ''car_database'') (PStr ''cars'') ''red cars'' cars_full 1
     = (PNone, [TryingMatch (PStr ''car_database'') (PStr ''cars''),
                MatchFailed (PStr ''car_database'') (PStr ''cars'') (ValueError ''No data found'')], 3)
   \<and> candidate_loop AgentPy sample_env ''red cars'' (candidate ''car_database'' ''cars'' # []) 0
     = (Inr (Some two_cars),
        [TryingMatch (PStr ''car_database'') (PStr ''cars''),
         MatchFailed (PStr ''car_database'') (PStr ''cars'') (ValueError ''No data found''),
         TryingAggregation (PStr ''car_database'') (PStr ''cars''),
         AggregationResult (PStr ''car_database'') (PStr ''cars'') two_cars], 5)"
proof -
  have d: "py_getitem (candidate ''car_database'' ''cars'') ''database'' = Inr (PStr ''car_database'')"
    by (simp add: candidate_def)
  have c: "py_getitem (candidate ''car_database'' ''cars'') ''collection'' = Inr (PStr ''cars'')"
    by (simp add: candidate_def)
  have s: "get_collection_schema sample_env (PStr ''car_database'') (PStr ''cars'') 0 = (Inr cars_full, 1)"
    by (simp add: run_defs sample_defs)
  have l: \<open>llm_invoke sample_env (MatchPrompt AgentPy ''red cars'' cars_full) 1 = (Inr '' {"color": "red"} '', 2)\<close>
    by (simp add: sample_defs)
  have j: \<open>json_loads sample_env (py_strip '' {"color": "red"} '') = Inr (PDict [(''color'', PStr ''red'')])\<close>
    by (simp add: sample_defs py_strip_def is_space_def)
  have m: "make_case_insensitive (PDict [(''color'', PStr ''red'')]) cars_full
             = Inr (PDict [(''color'', regex_condition ''red'')])"
    by (simp add: in_string_fields_def cars_full_def)
  have a: "aggregate sample_env (PStr ''car_database'') (PStr ''cars'')
             (PList [PDict [(''$match'', PDict [(''color'', regex_condition ''red'')])]]) 2
           = (Inr (PStr ''Found 0 documents''), 3)"
    by (simp add: sample_defs)
  have f: "sublist ''Found 0'' ''Found 0 documents''"
    by (simp add: sublist_code)
  have g: "try_query_with_aggregation AgentPy sample_env (PStr ''car_database'') (PStr ''cars'') ''red cars'' cars_full 3
             = (two_cars, [TryingAggregation (PStr ''car_database'') (PStr ''cars'')], 5)"
    by (simp add: run_defs sample_defs)
  have tt: "truthy two_cars" by (simp add: two_cars_def)
  show ?thesis
    using zero_matches_handled_as_exception [OF d c s l j m a f, of "[]"] g tt by simp
qed

text \<open>
  Claim C5 as stated fails: in \<^verbatim>\<open>agent.py\<close> a result reporting zero matches and a
  collaborator that times out give the same return value and are both printed as a failure.
  In \<^verbatim>\<open>gg.py\<close> the text looked for has a stray backquote, so the same result is returned
  as data.
\<close>

theorem zero_matches_not_distinct_from_failure:
  "try_query_with_match AgentPy sample_env (PStr ''car_database'') (PStr ''cars'') ''red cars'' cars_full 1
     = (PNone, [TryingMatch (PStr ''car_database'') (PStr ''cars''),
                MatchFailed (PStr ''car_database'') (PStr ''cars'') (ValueError ''No data found'')], 3)
   \<and> try_query_with_match AgentPy sample_env (PStr ''car_database'') (PStr ''trucks'') ''red cars'' cars_full 1
     = (PNone, [TryingMatch (PStr ''car_database'') (PStr ''trucks''),
                MatchFailed (PStr ''car_database'') (PStr ''trucks'') (CollabError ''timeout'')], 3)
   \<and> try_query_with_match GgPy sample_env (PStr ''car_database'') (PStr ''cars'') ''red cars'' cars_full 1
     = (PStr ''Found 0 documents'', [TryingMatch (PStr ''car_database'') (PStr ''cars'')], 3)"
  by (simp add: run_defs sample_defs sublist_code)

section \<open>The pipeline strategy\<close>

text \<open>
  Claim C6, as amended. In \<^verbatim>\<open>agent.py\<close> the strategy asks the completion call with the
  request and the schema, parses the stripped answer, and submits the parsed pipeline; an
  exception of the completion call, of the parser or of the aggregation yields \<^verbatim>\<open>None\<close>
  and a printed failure, otherwise the aggregation's result is returned. In \<^verbatim>\<open>gg.py\<close> the
  strategy asks no completion call and parses nothing: it hands the JSON text of a fixed
  pipeline, a text search for the request in the collection, to its aggregation agent; an
  exception yields \<^verbatim>\<open>None\<close> and a printed failure, otherwise the agent's result is
  returned.
\<close>

theorem aggregation_strategy_outcomes:
  "(llm_invoke env (AggPrompt ui schema) w = (Inl e, wa) \<longrightarrow>
      try_query_with_aggregation AgentPy env db coll ui schema w
        = (PNone, [TryingAggregation db coll, AggregationFailed e], wa))
 \<and> (llm_invoke env (AggPrompt ui schema) w = (Inr content, wa)
      \<and> json_loads env (py_strip content) = Inl e \<longrightarrow>
      try_query_with_aggregation AgentPy env db coll ui schema w
        = (PNone, [TryingAggregation db coll, AggregationFailed e], wa))
 \<and> (llm_invoke env (AggPrompt ui schema) w = (Inr content, wa)
      \<and> json_loads env (py_strip content) = Inr pipeline
      \<and> aggregate env db coll pipeline wa = (Inl e, wb) \<longrightarrow>
      try_query_with_aggregation AgentPy env db coll ui schema w
        = (PNone, [TryingAggregation db coll, AggregationFailed e], wb))
 \<and> (llm_invoke env (AggPrompt ui schema) w = (Inr content, wa)
      \<and> json_loads env (py_strip content) = Inr pipeline
      \<and> aggregate env db coll pipeline wa = (Inr result, wb) \<longrightarrow>
      try_query_with_aggregation AgentPy env db coll ui schema w
        = (result, [TryingAggregation db coll], wb))
 \<and> (aggregation_agent env
        (PDict [(''input'', PStr (json_dumps env
           (PDict [(''collection'', coll),
                   (''pipeline'', PList [PDict [(''$match'',
                      PDict [(''$text'', PDict [(''$search'', PStr ui)])])]])])))]) w
        = (Inl e, wa) \<longrightarrow>
      try_query_with_aggregation GgPy env db coll ui schema w
        = (PNone, [TryingAggregation db coll, AggregationFailedOn db coll e], wa))
 \<and> (aggregation_agent env
        (PDict [(''input'', PStr (json_dumps env
           (PDict [(''collection'', coll),
                   (''pipeline'', PList [PDict [(''$match'',
                      PDict [(''$text'', PDict [(''$search'', PStr ui)])])]])])))]) w
        = (Inr result, wa) \<longrightarrow>
      try_query_with_aggregation GgPy env db coll ui schema w
        = (result, [TryingAggregation db coll], wa))"
proof -
  have q: "text_search_query env coll ui =
      PDict [(''input'', PStr (json_dumps env
           (PDict [(''collection'', coll),
                   (''pipeline'', PList [PDict [(''$match'',
                      PDict [(''$text'', PDict [(''$search'', PStr ui)])])]])])))]"
    by (simp add: text_search_query_def)
  show ?thesis
    by (simp add: try_query_with_aggregation_def q)
qed

theorem aggregation_strategy_outcomes_witness:
  "try_query_with_aggregation AgentPy sample_env (PStr ''car_database'') (PStr ''cars'')
      ''completion down'' cars_full 0
     = (PNone, [TryingAggregation (PStr ''car_database'') (PStr ''cars''),
                AggregationFailed (CollabError ''completion'')], 1)
   \<and> try_query_with_aggregation AgentPy sample_env (PStr ''car_database'') (PStr ''cars'')
      ''chatty pipeline'' cars_full 0
     = (PNone, [TryingAggregation (PStr ''car_database'') (PStr ''cars''),
                AggregationFailed JSONDecodeError], 1)
   \<and> try_query_with_aggregation AgentPy sample_env (PStr ''car_database'') (PStr ''vans'')
      ''red cars'' cars_full 0
     = (PNone, [TryingAggregation (PStr ''car_database'') (PStr ''vans''),
                AggregationFailed (CollabError ''no such collection'')], 2)
   \<and> try_query_with_aggregation AgentPy sample_env (PStr ''car_database'') (PStr ''cars'')
      ''red cars'' cars_full 0
     = (two_cars, [TryingAggregation (PStr ''car_database'') (PStr ''cars'')], 2)
   \<and> try_query_with_aggregation GgPy sample_env (PStr ''car_database'') (PStr ''cars'')
      ''red cars'' cars_full 100
     = (PNone, [TryingAggregation (PStr ''car_database'') (PStr ''cars''),
                AggregationFailedOn (PStr ''car_database'') (PStr ''cars'') (CollabError ''agent'')], 101)
   \<and> try_query_with_aggregation GgPy sample_env (PStr ''car_database'') (PStr ''cars'')
      ''red cars'' cars_full 0
     = (two_cars, [TryingAggregation (PStr ''car_database'') (PStr ''cars'')], 1)
   \<and> try_query_with_aggregation GgPy sample_env (PStr ''car_database'') (PStr ''vans'')
      ''red cars'' cars_full 0
     = (PNone, [TryingAggregation (PStr ''car_database'') (PStr ''vans''),
                AggregationFailedOn (PStr ''car_database'') (PStr ''vans'') (CollabError ''bad request'')], 1)"
proof -
  have l1: "llm_invoke sample_env (AggPrompt ''completion down'' cars_full) 0
              = (Inl (CollabError ''completion''), 1)"
    by (simp add: sample_defs)
  have l2: "llm_invoke sample_env (AggPrompt ''chatty pipeline'' cars_full) 0
              = (Inr ''Sure, here is the pipeline'', 1)"
    by (simp add: sample_defs)
  have j2: "json_loads sample_env (py_strip ''Sure, here is the pipeline'') = Inl JSONDecodeError"
    by (simp add: sample_defs py_strip_def is_space_def)
  have l3: \<open>llm_invoke sample_env (AggPrompt ''red cars'' cars_full) 0
              = (Inr ''[{"$sort": {"year": 1}}]'', 1)\<close>
    by (simp add: sample_defs)
  have j3: \<open>json_loads sample_env (py_strip ''[{"$sort": {"year": 1}}]'')
              = Inr (PList [PDict [(''$sort'', PDict [(''year'', PInt 1)])]])\<close>
    by (simp add: sample_defs py_strip_def is_space_def)
  have a3: "aggregate sample_env (PStr ''car_database'') (PStr ''vans'')
              (PList [PDict [(''$sort'', PDict [(''year'', PInt 1)])]]) 1
              = (Inl (CollabError ''no such collection''), 2)"
    by (simp add: sample_defs)
  have a4: "aggregate sample_env (PStr ''car_database'') (PStr ''cars'')
              (PList [PDict [(''$sort'', PDict [(''year'', PInt 1)])]]) 1
              = (Inr two_cars, 2)"
    by (simp add: sample_defs)
  have g5: "aggregation_agent sample_env
        (PDict [(''input'', PStr (json_dumps sample_env
           (PDict [(''collection'', PStr ''cars''),
                   (''pipeline'', PList [PDict [(''$match'',
                      PDict [(''$text'', PDict [(''$search'', PStr ''red cars'')])])]])])))]) 100
              = (Inl (CollabError ''agent''), 101)"
    by (simp add: sample_defs)
  have g6: "aggregation_agent sample_env
        (PDict [(''input'', PStr (json_dumps sample_env
           (PDict [(''collection'', PStr ''cars''),
                   (''pipeline'', PList [PDict [(''$match'',
                      PDict [(''$text'', PDict [(''$search'', PStr ''red cars'')])])]])])))]) 0
              = (Inr two_cars, 1)"
    by (simp add: sample_defs)
  have g7: "aggregation_agent sample_env
        (PDict [(''input'', PStr (json_dumps sample_env
           (PDict [(''collection'', PStr ''vans''),
                   (''pipeline'', PList [PDict [(''$match'',
                      PDict [(''$text'', PDict [(''$search'', PStr ''red cars'')])])]])])))]) 0
              = (Inl (CollabError ''bad request''), 1)"
    by (simp add: sample_defs)
  show ?thesis
    using aggregation_strategy_outcomes
            [where env = sample_env and ui = "''completion down''" and schema = cars_full
               and w = 0 and wa = 1 and e = "CollabError ''completion''"
               and db = "PStr ''car_database''" and coll = "PStr ''cars''"]
          aggregation_strategy_outcomes
            [where env = sample_env and ui = "''chatty pipeline''" and schema = cars_full
               and w = 0 and wa = 1 and e = JSONDecodeError
               and content = "''Sure, here is the pipeline''"
               and db = "PStr ''car_database''" and coll = "PStr ''cars''"]
          aggregation_strategy_outcomes
            [where env = sample_env and ui = "''red cars''" and schema = cars_full
               and w = 0 and wa = 1 and wb = 2 and e = "CollabError ''no such collection''"
               and content = \<open>''[{"$sort": {"year": 1}}]''\<close>
               and pipeline = "PList [PDict [(''$sort'', PDict [(''year'', PInt 1)])]]"
               and db = "PStr ''car_database''" and coll = "PStr ''vans''"]
          aggregation_strategy_outcomes
            [where env = sample_env and ui = "''red cars''" and schema = cars_full
               and w = 0 and wa = 1 and wb = 2 and result = two_cars
               and content = \<open>''[{"$sort": {"year": 1}}]''\<close>
               and pipeline = "PList [PDict [(''$sort'', PDict [(''year'', PInt 1)])]]"
               and db = "PStr ''car_database''" and coll = "PStr ''cars''"]
          aggregation_strategy_outcomes
            [where env = sample_env and ui = "''red cars''" and schema = cars_full
               and w = 100 and wa = 101 and e = "CollabError ''agent''"
               and db = "PStr ''car_database''" and coll = "PStr ''cars''"]
          aggregation_strategy_outcomes
            [where env = sample_env and ui = "''red cars''" and schema = cars_full
               and w = 0 and wa = 1 and result = two_cars
               and db = "PStr ''car_database''" and coll = "PStr ''cars''"]
          aggregation_strategy_outcomes
            [where env = sample_env and ui = "''red cars''" and schema = cars_full
               and w = 0 and wa = 1 and e = "CollabError ''bad request''"
               and db = "PStr ''car_database''" and coll = "PStr ''vans''"]
          l1 l2 j2 l3 j3 a3 a4 g5 g6 g7
    by simp
qed

text \<open>
  Claim C6 as stated fails for \<^verbatim>\<open>gg.py\<close>: with a completion call that raises, its
  pipeline strategy still succeeds, after a single call, the one to the aggregation agent
  with the text search for the request.
\<close>

theorem gg_aggregation_ignores_completion:
  \<open>llm_invoke sample_env (AggPrompt ''completion down'' cars_full) 0
     = (Inl (CollabError ''completion''), 1)
   \<and> text_search_query sample_env (PStr ''cars'') ''completion down''
     = PDict [(''input'', PStr
         ''{"collection": "cars", "pipeline": [{"$match": {"$text": {"$search": "completion down"}}}]}'')]
   \<and> try_query_with_aggregation GgPy sample_env (PStr ''car_database'') (PStr ''cars'')
        ''completion down'' cars_full 0
     = (two_cars, [TryingAggregation (PStr ''car_database'') (PStr ''cars'')], 1)\<close>
  by (simp add: run_defs sample_defs)

section \<open>The ranker\<close>

text \<open>
  Claim C7, as amended: when inventory retrieval raises, when the completion call raises, or
  when its stripped answer does not parse as JSON, the ranker prints the failure and returns
  the default list, which has exactly one candidate; an answer that parses is returned as
  parsed, whatever it is. The ranker returns a value in every case: its type has no
  exception.
\<close>

theorem ranking_falls_back_to_default:
  "(tool_invoke env ''list-databases'' (PDict []) w = (Inl e, wa) \<longrightarrow>
      suggest_db_collection_candidates sf env ui w
        = (default_candidates, [SuggestionFailed e], wa))
 \<and> (retrieve_inventory sf env w = (Inl e, wa) \<longrightarrow>
      suggest_db_collection_candidates sf env ui w
        = (default_candidates, [SuggestionFailed e], wa))
 \<and> (retrieve_inventory sf env w = (Inr m, wa)
      \<and> llm_invoke env (RankPrompt sf ui m) wa = (Inl e, wb) \<longrightarrow>
      suggest_db_collection_candidates sf env ui w
        = (default_candidates, [SuggestionFailed e], wb))
 \<and> (retrieve_inventory sf env w = (Inr m, wa)
      \<and> llm_invoke env (RankPrompt sf ui m) wa = (Inr content, wb)
      \<and> json_loads env (py_strip content) = Inl e \<longrightarrow>
      suggest_db_collection_candidates sf env ui w
        = (default_candidates, [SuggestionFailed e], wb))
 \<and> (retrieve_inventory sf env w = (Inr m, wa)
      \<and> llm_invoke env (RankPrompt sf ui m) wa = (Inr content, wb)
      \<and> json_loads env (py_strip content) = Inr parsed \<longrightarrow>
      suggest_db_collection_candidates sf env ui w = (parsed, [], wb))
 \<and> py_iter default_candidates
      = Inr [PDict [(''database'', PStr ''car_database''), (''collection'', PStr ''cars'')]]"
proof -
  have "tool_invoke env ''list-databases'' (PDict []) w = (Inl e, wa) \<longrightarrow>
          retrieve_inventory sf env w = (Inl e, wa)"
    by (simp add: retrieve_inventory_def)
  then show ?thesis
    by (auto simp: suggest_db_collection_candidates_def suggest_body_def default_candidates_def)
qed

theorem ranking_falls_back_to_default_witness:
  "suggest_db_collection_candidates GgPy sample_env ''red cars'' 100
     = (default_candidates, [SuggestionFailed (CollabError ''connection refused'')], 101)
   \<and> suggest_db_collection_candidates AgentPy sample_env ''completion down'' 0
     = (default_candidates, [SuggestionFailed (CollabError ''completion'')], 3)
   \<and> suggest_db_collection_candidates AgentPy sample_env ''chatty ranking'' 0
     = (default_candidates, [SuggestionFailed JSONDecodeError], 3)
   \<and> suggest_db_collection_candidates AgentPy sample_env ''ranking without keys'' 0
     = (PList [PDict [(''db'', PStr ''car_database'')]], [], 3)
   \<and> py_iter default_candidates
      = Inr [PDict [(''database'', PStr ''car_database''), (''collection'', PStr ''cars'')]]"
proof -
  have t1: "tool_invoke sample_env ''list-databases'' (PDict []) 100
              = (Inl (CollabError ''connection refused''), 101)"
    by (simp add: sample_defs)
  have r1: "retrieve_inventory GgPy sample_env 100 = (Inl (CollabError ''connection refused''), 101)"
    by (simp add: run_defs sample_defs)
  have r2: "retrieve_inventory AgentPy sample_env 0
              = (Inr [(PStr ''car_database'', PList [PStr ''cars''])], 2)"
    by (simp add: run_defs sample_defs)
  have l2: "llm_invoke sample_env
              (RankPrompt AgentPy ''completion down'' [(PStr ''car_database'', PList [PStr ''cars''])]) 2
              = (Inl (CollabError ''completion''), 3)"
    by (simp add: sample_defs)
  have l3: "llm_invoke sample_env
              (RankPrompt AgentPy ''chatty ranking'' [(PStr ''car_database'', PList [PStr ''cars''])]) 2
              = (Inr ''Here are my suggestions:'', 3)"
    by (simp add: sample_defs)
  have j3: "json_loads sample_env (py_strip ''Here are my suggestions:'') = Inl JSONDecodeError"
    by (simp add: sample_defs py_strip_def is_space_def)
  have l4: \<open>llm_invoke sample_env
              (RankPrompt AgentPy ''ranking without keys'' [(PStr ''car_database'', PList [PStr ''cars''])]) 2
              = (Inr ''[{"db": "car_database"}]'', 3)\<close>
    by (simp add: sample_defs)
  have j4: \<open>json_loads sample_env (py_strip ''[{"db": "car_database"}]'')
              = Inr (PList [PDict [(''db'', PStr ''car_database'')]])\<close>
    by (simp add: sample_defs py_strip_def is_space_def)
  show ?thesis
    using ranking_falls_back_to_default
            [where env = sample_env and sf = GgPy and w = 100 and wa = 101
               and e = "CollabError ''connection refused''" and ui = "''red cars''"]
          ranking_falls_back_to_default
            [where env = sample_env and sf = AgentPy and w = 0 and wa = 2 and wb = 3
               and e = "CollabError ''completion''" and ui = "''completion down''"
               and m = "[(PStr ''car_database'', PList [PStr ''cars''])]"]
          ranking_falls_back_to_default
            [where env = sample_env and sf = AgentPy and w = 0 and wa = 2 and wb = 3
               and e = JSONDecodeError and ui = "''chatty ranking''"
               and m = "[(PStr ''car_database'', PList [PStr ''cars''])]"
               and content = "''Here are my suggestions:''"]
          ranking_falls_back_to_default
            [where env = sample_env and sf = AgentPy and w = 0 and wa = 2 and wb = 3
               and ui = "''ranking without keys''"
               and m = "[(PStr ''car_database'', PList [PStr ''cars''])]"
               and content = \<open>''[{"db": "car_database"}]''\<close>
               and parsed = "PList [PDict [(''db'', PStr ''car_database'')]]"]
          t1 r1 r2 l2 l3 j3 l4 j4
    by simp
qed

text \<open>
  Claim C7 as stated fails: an answer that parses as JSON is returned as it is, whether an
  object or a list of objects without the two keys.
\<close>

theorem ranking_returns_what_parses:
  "suggest_db_collection_candidates AgentPy sample_env ''ranking as object'' 0
     = (PDict [(''note'', PStr ''nothing fits'')], [], 3)
   \<and> suggest_db_collection_candidates GgPy sample_env ''ranking without keys'' 0
     = (PList [PDict [(''db'', PStr ''car_database'')]], [], 3)
   \<and> PDict [(''note'', PStr ''nothing fits'')] \<noteq> default_candidates
   \<and> PList [PDict [(''db'', PStr ''car_database'')]] \<noteq> default_candidates"
  by (simp add: run_defs sample_defs)

text \<open>
  Claim C8: one database whose collections cannot be listed is left out and the rest is still
  ranked. \<^verbatim>\<open>gg.py\<close> does so; \<^verbatim>\<open>agent.py\<close> does not: with two databases of which the
  first cannot be listed, its inventory retrieval raises, the second database is never asked
  for, the completion call is never made, and the ranker falls back to the default.
\<close>

theorem agent_inventory_aborts_on_one_database:
  "tool_invoke sample_env ''list-databases'' (PDict []) 50
     = (Inr (PDict [(''databases'',
          PList [PDict [(''name'', PStr ''archive'')], PDict [(''name'', PStr ''car_database'')]])]), 51)
   \<and> tool_invoke sample_env ''list-collections'' (PDict [(''database'', PStr ''archive'')]) 51
     = (Inl (CollabError ''not authorized''), 52)
   \<and> retrieve_inventory AgentPy sample_env 50 = (Inl (CollabError ''not authorized''), 52)
   \<and> suggest_db_collection_candidates AgentPy sample_env ''red cars'' 50
     = (default_candidates, [SuggestionFailed (CollabError ''not authorized'')], 52)
   \<and> retrieve_inventory GgPy sample_env 50
     = (Inr [(PStr ''car_database'', PList [PStr ''cars''])], 53)"
  by (simp add: run_defs sample_defs)

lemma inventory_loop_append:
  "inventory_loop sf env pre m0 w = (Inr m1, w1) \<Longrightarrow>
   inventory_loop sf env (pre @ post) m0 w = inventory_loop sf env post m1 w1"
proof (induction pre arbitrary: m0 w)
  case Nil
  then show ?case by simp
next
  case (Cons db pre)
  obtain r w' where step: "list_collections_into env db m0 w = (r, w')"
    by (cases "list_collections_into env db m0 w")
  show ?case
  proof (cases r)
    case (Inl e)
    then show ?thesis using step Cons.prems Cons.IH [of m0 w'] by (cases sf) simp_all
  next
    case (Inr m)
    then show ?thesis using step Cons.prems Cons.IH [of m w'] by simp
  qed
qed

lemma gg_inventory_loop_total:
  "\<exists>m w'. inventory_loop GgPy env dbs m0 w = (Inr m, w')"
proof (induction dbs arbitrary: m0 w)
  case Nil
  show ?case by simp
next
  case (Cons db dbs)
  obtain r w1 where step: "list_collections_into env db m0 w = (r, w1)"
    by (cases "list_collections_into env db m0 w")
  show ?case
    using step Cons.IH by (cases r) simp_all
qed

text \<open>
  Beyond the claims (X1), the loop of \<^verbatim>\<open>gg.py\<close>: a round that raises leaves the inventory as it was, the loop
  continues with the remaining databases, and it ends with an inventory.
\<close>

theorem gg_failed_database_is_skipped:
  assumes "inventory_loop GgPy env pre m0 w = (Inr m1, w1)"
      and "list_collections_into env db m1 w1 = (Inl e, w2)"
  shows "inventory_loop GgPy env (pre @ db # post) m0 w = inventory_loop GgPy env post m1 w2
       \<and> (\<exists>m w'. inventory_loop GgPy env (pre @ db # post) m0 w = (Inr m, w'))"
proof -
  have "inventory_loop GgPy env (pre @ db # post) m0 w = inventory_loop GgPy env post m1 w2"
    using inventory_loop_append [OF assms(1), of "db # post"] assms(2) by simp
  then show ?thesis
    using gg_inventory_loop_total [of env post m1 w2] by simp
qed

theorem gg_failed_database_is_skipped_witness:
  "inventory_loop GgPy sample_env ([] @ PStr ''archive'' # [PStr ''car_database'']) [] 51
     = inventory_loop GgPy sample_env [PStr ''car_database''] [] 52
   \<and> inventory_loop GgPy sample_env [PStr ''archive'', PStr ''car_database''] [] 51
     = (Inr [(PStr ''car_database'', PList [PStr ''cars''])], 53)"
proof -
  have p: "inventory_loop GgPy sample_env [] [] 51 = (Inr [], 51)"
    by simp
  have f: "list_collections_into sample_env (PStr ''archive'') [] 51
             = (Inl (CollabError ''not authorized''), 52)"
    by (simp add: run_defs sample_defs)
  have r: "inventory_loop GgPy sample_env [PStr ''car_database''] [] 52
             = (Inr [(PStr ''car_database'', PList [PStr ''cars''])], 53)"
    by (simp add: run_defs sample_defs)
  show ?thesis
    using gg_failed_database_is_skipped [OF p f, of "[PStr ''car_database'']"] r by simp
qed

section \<open>Schema introspection never fails on an empty description\<close>

text \<open>
  Claim C9, as amended: the introspector raises what the schema collaborator raised; when the
  collaborator returns a description without \<^verbatim>\<open>fields\<close>, or with an empty list of them,
  it returns that description with an empty list of string fields.
\<close>

theorem schema_fetch_outcomes:
  "(collection_schema env db coll w = (Inl e, w1) \<longrightarrow>
      get_collection_schema env db coll w = (Inl e, w1))
 \<and> (collection_schema env db coll w = (Inr (PDict d), w1)
      \<and> (map_of d ''fields'' = None \<or> map_of d ''fields'' = Some (PList [])) \<longrightarrow>
      get_collection_schema env db coll w
        = (Inr (PDict (dict_set d ''string_fields'' (PList []))), w1))"
  by (auto simp: get_collection_schema_def classify_schema_def)

theorem schema_fetch_outcomes_witness:
  "get_collection_schema sample_env (PStr ''car_database'') (PStr ''vans'') 0
     = (Inl (CollabError ''no such collection''), 1)
   \<and> get_collection_schema sample_env (PStr ''car_database'') (PStr ''scrap'') 0
     = (Inr (PDict [(''string_fields'', PList [])]), 1)"
proof -
  have c1: "collection_schema sample_env (PStr ''car_database'') (PStr ''vans'') 0
              = (Inl (CollabError ''no such collection''), 1)"
    by (simp add: sample_defs)
  have c2: "collection_schema sample_env (PStr ''car_database'') (PStr ''scrap'') 0
              = (Inr (PDict []), 1)"
    by (simp add: sample_defs)
  have n: "map_of ([] :: (string \<times> pyval) list) ''fields'' = None"
    by simp
  show ?thesis
    using schema_fetch_outcomes
            [of sample_env "PStr ''car_database''" "PStr ''vans''" 0 "CollabError ''no such collection''" 1]
          schema_fetch_outcomes
            [of sample_env "PStr ''car_database''" "PStr ''scrap''" 0 _ 1 "[]"]
          c1 c2 n
    by simp
qed

text \<open>
  Claim C9 as stated fails: for a description with no fields the introspector returns a
  schema, and the loop runs both strategies on it.
\<close>

theorem schema_without_fields_is_returned:
  "collection_schema sample_env (PStr ''car_database'') (PStr ''scrap'') 0 = (Inr (PDict []), 1)
   \<and> get_collection_schema sample_env (PStr ''car_database'') (PStr ''scrap'') 0
     = (Inr (PDict [(''string_fields'', PList [])]), 1)
   \<and> candidate_loop AgentPy sample_env ''red cars'' [candidate ''car_database'' ''scrap''] 0
     = (Inr None,
        [TryingMatch (PStr ''car_database'') (PStr ''scrap''),
         MatchFailed (PStr ''car_database'') (PStr ''scrap'') (CollabError ''no such collection''),
         TryingAggregation (PStr ''car_database'') (PStr ''scrap''),
         AggregationFailed (CollabError ''no such collection'')], 5)"
  by (simp add: run_defs sample_defs)

end
